theory Spec2Isabelle
  imports Main "HOL-Library.Sublist" "HOL-Library.AList"
begin

section \<open>The relational schema of the migration script\<close>

text \<open>
  The migration script (revision 239688c9b228) declares six tables. Every table ends with
  the same four columns (\<open>id\<close>, here \<open>row_id\<close>, \<open>created_at\<close>, \<open>updated_at\<close>,
  \<open>deleted_at\<close>), which are the base record here; the other columns extend it. A column declared \<open>NOT NULL\<close> has a
  plain type, a nullable column an \<open>option\<close> type, so a NULL in a \<open>NOT NULL\<close> column is
  excluded by the types. \<open>UUID\<close> and timestamps are natural numbers, \<open>DECIMAL(10, 2)\<close> is
  an integer number of hundredths, \<open>INTEGER\<close> is an integer.
\<close>

type_synonym uuid = nat
type_synonym timestamptz = nat
type_synonym decimal_10_2 = int

datatype user_role = BUYER | SELLER | ADMIN
datatype oauth_provider = GOOGLE | FACEBOOK | GITHUB
datatype book_condition = NEW | LIKE_NEW | GOOD | ACCEPTABLE
datatype book_status = DRAFT | ACTIVE | SOLD | ARCHIVED
datatype order_status =
  PENDING | PAYMENT_PROCESSING | PAID | SHIPPED | DELIVERED | CANCELLED | REFUNDED

record base_row =
  row_id :: uuid
  created_at :: timestamptz
  updated_at :: timestamptz
  deleted_at :: "timestamptz option"

record users_row = base_row +
  user_email :: string
  user_password_hash :: "string option"
  user_role :: user_role
  user_email_verified :: bool
  user_is_active :: bool
  user_first_name :: "string option"
  user_last_name :: "string option"
  user_avatar_url :: "string option"
  user_oauth_provider :: "oauth_provider option"
  user_oauth_provider_id :: "string option"

record books_row = base_row +
  book_seller_id :: uuid
  book_isbn :: "string option"
  book_title :: string
  book_author :: string
  book_description :: "string option"
  book_condition :: book_condition
  book_price :: decimal_10_2
  book_quantity :: int
  book_images :: "string list option"
  book_status :: book_status
  book_category :: "string option"
  book_publisher :: "string option"
  book_publication_year :: "int option"
  book_language :: string
  book_page_count :: "int option"

record orders_row = base_row +
  order_buyer_id :: uuid
  order_total_amount :: decimal_10_2
  order_status :: order_status
  order_stripe_payment_id :: "string option"
  order_stripe_session_id :: "string option"
  order_shipping_address :: "string option"
  order_notes :: "string option"

record messages_row = base_row +
  message_sender_id :: uuid
  message_recipient_id :: uuid
  message_book_id :: "uuid option"
  message_content :: string
  message_read_at :: "timestamptz option"

record order_items_row = base_row +
  item_order_id :: uuid
  item_book_id :: "uuid option"
  item_quantity :: int
  item_price_at_purchase :: decimal_10_2
  item_book_title :: string
  item_book_author :: string

record reviews_row = base_row +
  review_book_id :: uuid
  review_user_id :: uuid
  review_rating :: int
  review_comment :: "string option"
  review_is_verified_purchase :: bool

record database =
  users :: "users_row list"
  books :: "books_row list"
  orders :: "orders_row list"
  messages :: "messages_row list"
  order_items :: "order_items_row list"
  reviews :: "reviews_row list"

definition empty_database :: database where
  "empty_database =
     \<lparr>users = [], books = [], orders = [], messages = [], order_items = [], reviews = []\<rparr>"

subsection \<open>Constraints\<close>

text \<open>
  A statement that breaks a declared constraint is rejected and changes nothing.
  PostgreSQL reports one error, the first it meets. It coerces the values to the types of
  their columns, in the order of the columns (a string too long for its \<open>VARCHAR\<close>); then
  it checks the \<open>CHECK\<close> constraints of the row; then it enters the row into the unique
  indexes, the primary key's first and the others in the order of their creation; and it
  checks the foreign keys last, in the order of their declaration. The violations of a row
  are listed in that order, each under the name the script (or PostgreSQL's naming rule
  for an unnamed constraint) gives it, and a rejected statement reports the first.
\<close>

datatype violation =
  NotUnique string
  | ForeignKeyMissing string
  | CheckFailed string
  | TooLong string

datatype outcome = Done | Rejected violation

definition violated :: "bool \<Rightarrow> violation \<Rightarrow> violation list" where
  "violated broken v = (if broken then [v] else [])"

definition checked :: "violation list \<Rightarrow> database \<Rightarrow> database \<Rightarrow> outcome \<times> database" where
  "checked vs db db' = (case vs of [] \<Rightarrow> (Done, db') | v # later \<Rightarrow> (Rejected v, db))"

definition ids :: "('a base_row_scheme) list \<Rightarrow> uuid list" where
  "ids rows = map row_id rows"

definition too_long :: "nat \<Rightarrow> string option \<Rightarrow> bool" where
  "too_long n v = (case v of None \<Rightarrow> False | Some s \<Rightarrow> n < length s)"

text \<open>A \<open>UNIQUE\<close> constraint on a nullable column admits any number of NULLs.\<close>

definition taken :: "'a option \<Rightarrow> 'a option list \<Rightarrow> bool" where
  "taken v vs = (case v of None \<Rightarrow> False | Some x \<Rightarrow> Some x \<in> set vs)"

definition users_violations :: "database \<Rightarrow> users_row \<Rightarrow> violation list" where
  "users_violations db r =
     violated (255 < length (user_email r)) (TooLong ''email'')
     @ violated (too_long 255 (user_password_hash r)) (TooLong ''password_hash'')
     @ violated (too_long 100 (user_first_name r)) (TooLong ''first_name'')
     @ violated (too_long 100 (user_last_name r)) (TooLong ''last_name'')
     @ violated (too_long 255 (user_oauth_provider_id r)) (TooLong ''oauth_provider_id'')
     @ violated (row_id r \<in> set (ids (users db))) (NotUnique ''users_pkey'')
     @ violated (user_email r \<in> set (map user_email (users db))) (NotUnique ''ix_users_email'')"

definition books_violations :: "database \<Rightarrow> books_row \<Rightarrow> violation list" where
  "books_violations db r =
     violated (too_long 20 (book_isbn r)) (TooLong ''isbn'')
     @ violated (500 < length (book_title r)) (TooLong ''title'')
     @ violated (255 < length (book_author r)) (TooLong ''author'')
     @ violated (too_long 100 (book_category r)) (TooLong ''category'')
     @ violated (too_long 255 (book_publisher r)) (TooLong ''publisher'')
     @ violated (50 < length (book_language r)) (TooLong ''language'')
     @ violated (row_id r \<in> set (ids (books db))) (NotUnique ''books_pkey'')
     @ violated (book_seller_id r \<notin> set (ids (users db)))
         (ForeignKeyMissing ''books_seller_id_fkey'')"

definition orders_violations :: "database \<Rightarrow> orders_row \<Rightarrow> violation list" where
  "orders_violations db r =
     violated (too_long 255 (order_stripe_payment_id r)) (TooLong ''stripe_payment_id'')
     @ violated (too_long 255 (order_stripe_session_id r)) (TooLong ''stripe_session_id'')
     @ violated (row_id r \<in> set (ids (orders db))) (NotUnique ''orders_pkey'')
     @ violated (taken (order_stripe_payment_id r) (map order_stripe_payment_id (orders db)))
         (NotUnique ''orders_stripe_payment_id_key'')
     @ violated (taken (order_stripe_session_id r) (map order_stripe_session_id (orders db)))
         (NotUnique ''orders_stripe_session_id_key'')
     @ violated (order_buyer_id r \<notin> set (ids (users db)))
         (ForeignKeyMissing ''orders_buyer_id_fkey'')"

definition references :: "uuid option \<Rightarrow> uuid list \<Rightarrow> bool" where
  "references v parents = (case v of None \<Rightarrow> True | Some x \<Rightarrow> x \<in> set parents)"

definition messages_violations :: "database \<Rightarrow> messages_row \<Rightarrow> violation list" where
  "messages_violations db r =
     violated (row_id r \<in> set (ids (messages db))) (NotUnique ''messages_pkey'')
     @ violated (\<not> references (message_book_id r) (ids (books db)))
         (ForeignKeyMissing ''messages_book_id_fkey'')
     @ violated (message_recipient_id r \<notin> set (ids (users db)))
         (ForeignKeyMissing ''messages_recipient_id_fkey'')
     @ violated (message_sender_id r \<notin> set (ids (users db)))
         (ForeignKeyMissing ''messages_sender_id_fkey'')"

definition order_items_violations :: "database \<Rightarrow> order_items_row \<Rightarrow> violation list" where
  "order_items_violations db r =
     violated (500 < length (item_book_title r)) (TooLong ''book_title'')
     @ violated (255 < length (item_book_author r)) (TooLong ''book_author'')
     @ violated (row_id r \<in> set (ids (order_items db))) (NotUnique ''order_items_pkey'')
     @ violated (\<not> references (item_book_id r) (ids (books db)))
         (ForeignKeyMissing ''order_items_book_id_fkey'')
     @ violated (item_order_id r \<notin> set (ids (orders db)))
         (ForeignKeyMissing ''order_items_order_id_fkey'')"

definition book_user :: "reviews_row \<Rightarrow> uuid \<times> uuid" where
  "book_user r = (review_book_id r, review_user_id r)"

text \<open>
  \<open>reviews\<close> has no \<open>VARCHAR\<close> column: the first check is \<open>ck_review_rating_range\<close>, then
  the primary key, then \<open>uq_review_book_user\<close>, then the two foreign keys. \<open>others\<close> are
  the rows the new row is compared with.
\<close>

definition reviews_violations :: "database \<Rightarrow> reviews_row list \<Rightarrow> reviews_row \<Rightarrow> violation list"
  where
  "reviews_violations db others r =
     violated (\<not> (review_rating r \<ge> 1 \<and> review_rating r \<le> 5))
         (CheckFailed ''ck_review_rating_range'')
     @ violated (row_id r \<in> set (ids others)) (NotUnique ''reviews_pkey'')
     @ violated (book_user r \<in> set (map book_user others)) (NotUnique ''uq_review_book_user'')
     @ violated (review_book_id r \<notin> set (ids (books db)))
         (ForeignKeyMissing ''reviews_book_id_fkey'')
     @ violated (review_user_id r \<notin> set (ids (users db)))
         (ForeignKeyMissing ''reviews_user_id_fkey'')"

subsection \<open>Statements\<close>

text \<open>
  \<open>INSERT\<close> adds the row when it breaks no constraint. \<open>DELETE\<close> of a row removes it and
  carries out the \<open>ON DELETE\<close> action of every foreign key that points at its table:
  \<open>CASCADE\<close> deletes the referencing rows (and so runs their own actions), \<open>SET NULL\<close>
  clears the referencing column and leaves the rest of the row as it is. A \<open>DELETE\<close> that
  finds no row with the id changes nothing.
\<close>

definition insert_user :: "users_row \<Rightarrow> database \<Rightarrow> outcome \<times> database" where
  "insert_user r db = checked (users_violations db r) db (db\<lparr>users := users db @ [r]\<rparr>)"

definition insert_book :: "books_row \<Rightarrow> database \<Rightarrow> outcome \<times> database" where
  "insert_book r db = checked (books_violations db r) db (db\<lparr>books := books db @ [r]\<rparr>)"

definition insert_order :: "orders_row \<Rightarrow> database \<Rightarrow> outcome \<times> database" where
  "insert_order r db = checked (orders_violations db r) db (db\<lparr>orders := orders db @ [r]\<rparr>)"

definition insert_message :: "messages_row \<Rightarrow> database \<Rightarrow> outcome \<times> database" where
  "insert_message r db =
     checked (messages_violations db r) db (db\<lparr>messages := messages db @ [r]\<rparr>)"

definition insert_order_item :: "order_items_row \<Rightarrow> database \<Rightarrow> outcome \<times> database" where
  "insert_order_item r db =
     checked (order_items_violations db r) db (db\<lparr>order_items := order_items db @ [r]\<rparr>)"

definition insert_review :: "reviews_row \<Rightarrow> database \<Rightarrow> outcome \<times> database" where
  "insert_review r db =
     checked (reviews_violations db (reviews db) r) db (db\<lparr>reviews := reviews db @ [r]\<rparr>)"

text \<open>
  \<open>UPDATE reviews SET ... WHERE id = i\<close>: the new row is checked against the other rows
  of the table; a statement that matches no row changes nothing.
\<close>

definition update_review :: "uuid \<Rightarrow> reviews_row \<Rightarrow> database \<Rightarrow> outcome \<times> database" where
  "update_review i r db =
     (if i \<notin> set (ids (reviews db)) then (Done, db)
      else
        checked (reviews_violations db (filter (\<lambda>x. row_id x \<noteq> i) (reviews db)) r) db
          (db\<lparr>reviews := map (\<lambda>x. if row_id x = i then r else x) (reviews db)\<rparr>))"

definition set_null_message :: "uuid \<Rightarrow> messages_row \<Rightarrow> messages_row" where
  "set_null_message b m = (if message_book_id m = Some b then m\<lparr>message_book_id := None\<rparr> else m)"

definition set_null_item :: "uuid \<Rightarrow> order_items_row \<Rightarrow> order_items_row" where
  "set_null_item b i = (if item_book_id i = Some b then i\<lparr>item_book_id := None\<rparr> else i)"

definition delete_review :: "uuid \<Rightarrow> database \<Rightarrow> database" where
  "delete_review i db = db\<lparr>reviews := filter (\<lambda>r. row_id r \<noteq> i) (reviews db)\<rparr>"

definition delete_message :: "uuid \<Rightarrow> database \<Rightarrow> database" where
  "delete_message i db = db\<lparr>messages := filter (\<lambda>m. row_id m \<noteq> i) (messages db)\<rparr>"

definition delete_order_item :: "uuid \<Rightarrow> database \<Rightarrow> database" where
  "delete_order_item i db = db\<lparr>order_items := filter (\<lambda>x. row_id x \<noteq> i) (order_items db)\<rparr>"

text \<open>
  \<open>books\<close> is referenced by \<open>messages.book_id\<close> and \<open>order_items.book_id\<close>
  (\<open>ON DELETE SET NULL\<close>) and by \<open>reviews.book_id\<close> (\<open>ON DELETE CASCADE\<close>).
\<close>

definition delete_book :: "uuid \<Rightarrow> database \<Rightarrow> database" where
  "delete_book b db =
     (if b \<notin> set (ids (books db)) then db
      else
        db\<lparr>books := filter (\<lambda>x. row_id x \<noteq> b) (books db),
           messages := map (set_null_message b) (messages db),
           order_items := map (set_null_item b) (order_items db),
           reviews := filter (\<lambda>r. review_book_id r \<noteq> b) (reviews db)\<rparr>)"

text \<open>\<open>orders\<close> is referenced by \<open>order_items.order_id\<close> (\<open>ON DELETE CASCADE\<close>).\<close>

definition delete_order :: "uuid \<Rightarrow> database \<Rightarrow> database" where
  "delete_order ord db =
     (if ord \<notin> set (ids (orders db)) then db
      else
        db\<lparr>orders := filter (\<lambda>x. row_id x \<noteq> ord) (orders db),
           order_items := filter (\<lambda>i. item_order_id i \<noteq> ord) (order_items db)\<rparr>)"

text \<open>
  \<open>users\<close> is referenced by \<open>books.seller_id\<close>, \<open>orders.buyer_id\<close>,
  \<open>messages.sender_id\<close>, \<open>messages.recipient_id\<close> and \<open>reviews.user_id\<close>, all
  \<open>ON DELETE CASCADE\<close>. The books and the orders that go are deleted as rows of their own
  tables, with the actions of those tables.
\<close>

definition delete_user :: "uuid \<Rightarrow> database \<Rightarrow> database" where
  "delete_user u db =
     (if u \<notin> set (ids (users db)) then db
      else
        let sold = ids (filter (\<lambda>b. book_seller_id b = u) (books db));
            bought = ids (filter (\<lambda>ord. order_buyer_id ord = u) (orders db));
            db1 = fold delete_book sold db;
            db2 = fold delete_order bought db1
        in db2\<lparr>users := filter (\<lambda>x. row_id x \<noteq> u) (users db2),
               messages :=
                 filter (\<lambda>m. message_sender_id m \<noteq> u \<and> message_recipient_id m \<noteq> u)
                   (messages db2),
               reviews := filter (\<lambda>r. review_user_id r \<noteq> u) (reviews db2)\<rparr>)"

datatype statement =
  InsertUser users_row
  | InsertBook books_row
  | InsertOrder orders_row
  | InsertMessage messages_row
  | InsertOrderItem order_items_row
  | InsertReview reviews_row
  | UpdateReview uuid reviews_row
  | DeleteUser uuid
  | DeleteBook uuid
  | DeleteOrder uuid
  | DeleteMessage uuid
  | DeleteOrderItem uuid
  | DeleteReview uuid

fun execute :: "statement \<Rightarrow> database \<Rightarrow> outcome \<times> database" where
  "execute (InsertUser r) db = insert_user r db"
| "execute (InsertBook r) db = insert_book r db"
| "execute (InsertOrder r) db = insert_order r db"
| "execute (InsertMessage r) db = insert_message r db"
| "execute (InsertOrderItem r) db = insert_order_item r db"
| "execute (InsertReview r) db = insert_review r db"
| "execute (UpdateReview i r) db = update_review i r db"
| "execute (DeleteUser u) db = (Done, delete_user u db)"
| "execute (DeleteBook b) db = (Done, delete_book b db)"
| "execute (DeleteOrder ord) db = (Done, delete_order ord db)"
| "execute (DeleteMessage i) db = (Done, delete_message i db)"
| "execute (DeleteOrderItem i) db = (Done, delete_order_item i db)"
| "execute (DeleteReview i) db = (Done, delete_review i db)"

text \<open>The states the database can be in: those a run of statements on the empty tables gives.\<close>

inductive reachable :: "database \<Rightarrow> bool" where
  reachable_empty: "reachable empty_database"
| reachable_execute: "reachable db \<Longrightarrow> reachable (snd (execute st db))"

subsection \<open>Example rows\<close>

text \<open>
  Two users, a book of each, an order of each holding the other's book, two messages about
  the first user's book and a review of each book: the data the properties below are tried on.
\<close>

definition example_user :: "uuid \<Rightarrow> string \<Rightarrow> users_row" where
  "example_user i e =
     \<lparr>row_id = i, created_at = 0, updated_at = 0, deleted_at = None,
      user_email = e, user_password_hash = None, user_role = BUYER,
      user_email_verified = True, user_is_active = True, user_first_name = None,
      user_last_name = None, user_avatar_url = None, user_oauth_provider = Some GOOGLE,
      user_oauth_provider_id = Some ''g123''\<rparr>"

definition example_book :: "uuid \<Rightarrow> uuid \<Rightarrow> books_row" where
  "example_book i seller =
     \<lparr>row_id = i, created_at = 0, updated_at = 0, deleted_at = None,
      book_seller_id = seller, book_isbn = None, book_title = ''Emma'',
      book_author = ''Austen'', book_description = None, book_condition = GOOD,
      book_price = 950, book_quantity = 1, book_images = None, book_status = ACTIVE,
      book_category = None, book_publisher = None, book_publication_year = None,
      book_language = ''en'', book_page_count = None\<rparr>"

definition example_order :: "uuid \<Rightarrow> uuid \<Rightarrow> orders_row" where
  "example_order i buyer =
     \<lparr>row_id = i, created_at = 0, updated_at = 0, deleted_at = None,
      order_buyer_id = buyer, order_total_amount = 950, order_status = PAID,
      order_stripe_payment_id = None, order_stripe_session_id = None,
      order_shipping_address = None, order_notes = None\<rparr>"

definition example_message :: "uuid \<Rightarrow> uuid \<Rightarrow> uuid \<Rightarrow> uuid option \<Rightarrow> messages_row" where
  "example_message i sender recipient book =
     \<lparr>row_id = i, created_at = 0, updated_at = 0, deleted_at = None,
      message_sender_id = sender, message_recipient_id = recipient, message_book_id = book,
      message_content = ''hello'', message_read_at = None\<rparr>"

definition example_item :: "uuid \<Rightarrow> uuid \<Rightarrow> uuid option \<Rightarrow> order_items_row" where
  "example_item i ord book =
     \<lparr>row_id = i, created_at = 0, updated_at = 0, deleted_at = None,
      item_order_id = ord, item_book_id = book, item_quantity = 1,
      item_price_at_purchase = 950, item_book_title = ''Emma'', item_book_author = ''Austen''\<rparr>"

definition example_review :: "uuid \<Rightarrow> uuid \<Rightarrow> uuid \<Rightarrow> int \<Rightarrow> reviews_row" where
  "example_review i book usr rating =
     \<lparr>row_id = i, created_at = 0, updated_at = 0, deleted_at = None,
      review_book_id = book, review_user_id = usr, review_rating = rating,
      review_comment = None, review_is_verified_purchase = False\<rparr>"

definition example_statements :: "statement list" where
  "example_statements =
     [InsertUser (example_user 1 ''a@x.com''), InsertUser (example_user 2 ''b@x.com''),
      InsertBook (example_book 10 1), InsertBook (example_book 11 2),
      InsertOrder (example_order 20 2), InsertOrder (example_order 21 1),
      InsertOrderItem (example_item 30 20 (Some 10)),
      InsertOrderItem (example_item 31 21 (Some 11)),
      InsertMessage (example_message 40 2 1 (Some 10)),
      InsertMessage (example_message 41 2 2 (Some 10)),
      InsertReview (example_review 50 10 2 4), InsertReview (example_review 52 11 1 5)]"

definition run :: "statement list \<Rightarrow> database \<Rightarrow> database" where
  "run sts db = fold (\<lambda>st d. snd (execute st d)) sts db"

definition example_database :: database where
  "example_database = run example_statements empty_database"

text \<open>
  The two keys of \<open>reviews\<close>: the primary key and \<open>uq_review_book_user\<close>.
\<close>

definition reviews_ok :: "database \<Rightarrow> bool" where
  "reviews_ok db \<longleftrightarrow> distinct (ids (reviews db)) \<and> distinct (map book_user (reviews db))"

section \<open>The JavaScript handlers\<close>

subsection \<open>Values, objects, exceptions\<close>

text \<open>
  A JavaScript value; an object is its list of properties in insertion order. A function
  that can throw returns \<open>exception + 'a\<close> or a \<open>completion\<close>; an \<open>async\<close> function that
  throws is a rejected promise, which is \<open>Threw\<close> as well.
\<close>

datatype jsval =
  Undefined
  | Null
  | Bool bool
  | Num int
  | Str string
  | Date nat
  | ObjectId nat
  | Obj "(string \<times> jsval) list"

type_synonym object = "(string \<times> jsval) list"

datatype exception =
  ReferenceError string
  | TypeError string
  | Error string
  | LibraryError string

datatype 'a completion = Returned 'a | Threw exception

fun truthy :: "jsval \<Rightarrow> bool" where
  "truthy Undefined = False"
| "truthy Null = False"
| "truthy (Bool b) = b"
| "truthy (Num n) = (n \<noteq> 0)"
| "truthy (Str s) = (s \<noteq> [])"
| "truthy (Date t) = True"
| "truthy (ObjectId i) = True"
| "truthy (Obj obj) = True"

text \<open>A string that may be \<open>undefined\<close>: \<open>None\<close> and the empty string are falsy.\<close>

definition truthy_string :: "string option \<Rightarrow> bool" where
  "truthy_string s = (case s of None \<Rightarrow> False | Some t \<Rightarrow> t \<noteq> [])"

definition field_of :: "object \<Rightarrow> string \<Rightarrow> jsval" where
  "field_of obj k = (case map_of obj k of None \<Rightarrow> Undefined | Some v \<Rightarrow> v)"

text \<open>
  \<open>v.k\<close>: a property of \<open>undefined\<close> or \<open>null\<close> cannot be read; a primitive has no
  property of its own.
\<close>

fun property :: "jsval \<Rightarrow> string \<Rightarrow> exception + jsval" where
  "property Undefined k = Inl (TypeError ''Cannot read properties of undefined'')"
| "property Null k = Inl (TypeError ''Cannot read properties of null'')"
| "property (Obj obj) k = Inr (field_of obj k)"
| "property v k = Inr Undefined"

text \<open>\<open>s.split(c)\<close> for a separator of one character, and \<open>xs[n]\<close>.\<close>

fun split_on :: "char \<Rightarrow> string \<Rightarrow> string list" where
  "split_on c [] = [[]]"
| "split_on c (x # xs) =
     (if x = c then [] # split_on c xs
      else (case split_on c xs of [] \<Rightarrow> [[x]] | w # ws \<Rightarrow> (x # w) # ws))"

definition nth_opt :: "'a list \<Rightarrow> nat \<Rightarrow> 'a option" where
  "nth_opt xs n = (if n < length xs then Some (xs ! n) else None)"

subsection \<open>The MongoDB driver\<close>

text \<open>
  What the handlers use of the driver. A property of a collection object is found by its
  exact name, and calling a property that is not there throws a \<open>TypeError\<close>.
  A filter and a \<open>$set\<close> document are lists of fields with scalar values; a filter selects
  the documents that have each of its fields with that value. The driver stores
  \<open>undefined\<close> as \<open>null\<close>.
\<close>

definition Collection_methods :: "string list" where
  "Collection_methods =
     [''insertOne'', ''insertMany'', ''bulkWrite'', ''updateOne'', ''replaceOne'',
      ''updateMany'', ''deleteOne'', ''deleteMany'', ''rename'', ''drop'', ''findOne'',
      ''find'', ''countDocuments'', ''estimatedDocumentCount'', ''distinct'', ''indexes'',
      ''createIndex'', ''findOneAndDelete'', ''findOneAndReplace'', ''findOneAndUpdate'',
      ''aggregate'', ''watch'']"

definition not_a_function :: "string \<Rightarrow> exception" where
  "not_a_function name = TypeError (name @ '' is not a function'')"

text \<open>
  What a call of a database getter gives: a database handle, or (for an \<open>async\<close> getter
  that is not awaited) a promise, which has no \<open>collection\<close> method.
\<close>

datatype handle = Db | Promise

record collection =
  docs :: "object list"
  unique_email :: bool

definition bson :: "jsval \<Rightarrow> jsval" where
  "bson v = (if v = Undefined then Null else v)"

definition matches :: "object \<Rightarrow> object \<Rightarrow> bool" where
  "matches flt d = list_all (\<lambda>(k, v). field_of d k = v) flt"

definition findOne :: "object \<Rightarrow> object list \<Rightarrow> jsval" where
  "findOne flt ds = (case find (matches flt) ds of None \<Rightarrow> Null | Some d \<Rightarrow> Obj d)"

text \<open>
  \<open>insertOne\<close> gives the document an \<open>_id\<close>, an \<open>ObjectId\<close> that no document of the
  collection has: here the number after the greatest one in use. With the unique index on
  \<open>email\<close> in force (\<open>unique: true\<close> of \<open>userSchema\<close>) a document whose email is already
  there is refused with the server's duplicate key error.
\<close>

definition fresh_oid :: "object list \<Rightarrow> nat" where
  "fresh_oid ds =
     foldr (\<lambda>d n. case field_of d ''_id'' of ObjectId m \<Rightarrow> max (Suc m) n | _ \<Rightarrow> n) ds 0"

definition insertOne :: "object \<Rightarrow> collection \<Rightarrow> exception + (object \<times> collection)" where
  "insertOne d c =
     (let stored = (''_id'', ObjectId (fresh_oid (docs c))) # map (\<lambda>(k, v). (k, bson v)) d in
      if unique_email c
         \<and> field_of stored ''email'' \<in> set (map (\<lambda>x. field_of x ''email'') (docs c))
      then Inl (LibraryError ''E11000 duplicate key error'')
      else Inr (stored, c\<lparr>docs := docs c @ [stored]\<rparr>))"

fun update_first :: "('a \<Rightarrow> bool) \<Rightarrow> ('a \<Rightarrow> 'a) \<Rightarrow> 'a list \<Rightarrow> 'a list" where
  "update_first P f [] = []"
| "update_first P f (x # xs) = (if P x then f x # xs else x # update_first P f xs)"

definition set_fields :: "object \<Rightarrow> object \<Rightarrow> object" where
  "set_fields changes d = fold (\<lambda>(k, v). AList.update k (bson v)) changes d"

definition updateOne :: "object \<Rightarrow> object \<Rightarrow> collection \<Rightarrow> collection" where
  "updateOne flt changes c =
     c\<lparr>docs := update_first (matches flt) (set_fields changes) (docs c)\<rparr>"

subsection \<open>\<open>getDB\<close> (server/config/db.js)\<close>

text \<open>
  The module keeps \<open>client\<close> and \<open>db\<close> in two variables. \<open>new MongoClient\<close> and
  \<open>client.connect\<close> belong to the driver and are parameters: the constructor may refuse
  the URI, and whether a connection attempt succeeds may depend on how many were made
  before. The \<open>catch\<close> writes the error to the console; the function then ends without a
  \<open>return\<close>, so its value is \<open>undefined\<close> (\<open>None\<close>).
\<close>

record mongodb =
  new_MongoClient :: "string option \<Rightarrow> exception + string"
  connect :: "string \<Rightarrow> nat \<Rightarrow> exception option"

record process =
  process_env :: "string \<rightharpoonup> string"
  console :: "exception list"
  attempts :: nat
  module_client :: "string option"
  module_db :: "handle option"

definition getDB :: "mongodb \<Rightarrow> process \<Rightarrow> handle option completion \<times> process" where
  "getDB lib p =
     (let uri = process_env p ''MONGODB_URI'' in
      case new_MongoClient lib uri of
        Inl error \<Rightarrow> (Returned None, p\<lparr>console := console p @ [error]\<rparr>)
      | Inr cl \<Rightarrow>
          (case connect lib cl (attempts p) of
             Some error \<Rightarrow>
               (Returned None,
                p\<lparr>module_client := Some cl, attempts := Suc (attempts p),
                  console := console p @ [error]\<rparr>)
           | None \<Rightarrow>
               (Returned (Some Db),
                p\<lparr>module_client := Some cl, attempts := Suc (attempts p),
                  module_db := Some Db\<rparr>)))"

subsection \<open>The two token middlewares\<close>

text \<open>
  Node gives the request's headers under their lower-case names. A middleware answers
  through \<open>res\<close> (the responses it sends, in order), calls \<open>next\<close> or not, may set
  \<open>req.user\<close> and may write to the console. \<open>jwt.verify\<close> is a parameter; it is never
  reached with a missing or empty token, which the library refuses first.
\<close>

record request =
  req_headers :: "string \<rightharpoonup> string"
  req_cookies :: "string \<rightharpoonup> string"

type_synonym response = "nat \<times> object"

record handled =
  sent :: "response list"
  next_called :: bool
  req_user :: jsval
  logged :: "exception list"

definition untouched :: handled where
  "untouched = \<lparr>sent = [], next_called = False, req_user = Undefined, logged = []\<rparr>"

definition verify ::
  "(string \<Rightarrow> string option \<Rightarrow> exception + jsval) \<Rightarrow> string option \<Rightarrow> string option
     \<Rightarrow> exception + jsval" where
  "verify jwt_verify token secret =
     (case token of
        None \<Rightarrow> Inl (LibraryError ''jwt must be provided'')
      | Some t \<Rightarrow>
          if t = [] then Inl (LibraryError ''jwt must be provided'') else jwt_verify t secret)"

text \<open>\<open>authMiddleware\<close>, with \<open>JWT_SECRET = process.env.NEXTAUTH_SECRET\<close>.\<close>

definition authMiddleware ::
  "(string \<Rightarrow> string option \<Rightarrow> exception + jsval) \<Rightarrow> (string \<rightharpoonup> string) \<Rightarrow> request \<Rightarrow> handled"
  where
  "authMiddleware jwt_verify penv req =
     (let JWT_SECRET = penv ''NEXTAUTH_SECRET'';
          bearer = (case req_headers req ''authoriztion'' of
                      None \<Rightarrow> None
                    | Some a \<Rightarrow> nth_opt (split_on CHR '' '' a) 1);
          token = (if truthy_string bearer then bearer
                   else req_cookies req ''next-auth.session-token'')
      in if \<not> truthy_string token
         then untouched\<lparr>sent := [(401, [(''error'', Str ''No token'')])]\<rparr>
         else (case verify jwt_verify token JWT_SECRET of
                 Inr decoded \<Rightarrow> untouched\<lparr>req_user := decoded, next_called := True\<rparr>
               | Inl err \<Rightarrow> untouched\<lparr>sent := [(403, [(''error'', Str ''Invalid token'')])]\<rparr>))"

text \<open>
  \<open>protect\<close>. The module imports \<open>getDb\<close> and calls \<open>getDB\<close>: \<open>scope\<close> gives, for a name
  bound in the module, what calling it returns. \<open>new ObjectId\<close> is a parameter. The
  value of the right-hand side of the assignment to \<open>req.user\<close>:
\<close>

definition protect_lookup ::
  "(string \<Rightarrow> string option \<Rightarrow> exception + jsval) \<Rightarrow> (jsval \<Rightarrow> exception + jsval)
     \<Rightarrow> (string \<rightharpoonup> handle) \<Rightarrow> (string \<rightharpoonup> string) \<Rightarrow> object list \<Rightarrow> string option
     \<Rightarrow> exception + jsval" where
  "protect_lookup jwt_verify new_ObjectId scope penv ds token =
     (case verify jwt_verify token (penv ''JWT_SECRET'') of
        Inl error \<Rightarrow> Inl error
      | Inr decoded \<Rightarrow>
          (case scope ''getDB'' of
             None \<Rightarrow> Inl (ReferenceError ''getDB is not defined'')
           | Some Promise \<Rightarrow> Inl (not_a_function ''db.collection'')
           | Some Db \<Rightarrow>
               (case property decoded ''id'' of
                  Inl error \<Rightarrow> Inl error
                | Inr i \<Rightarrow>
                    (case new_ObjectId i of
                       Inl error \<Rightarrow> Inl error
                     | Inr oid \<Rightarrow>
                         if ''findOne'' \<in> set Collection_methods
                         then Inr (findOne [(''_id'', oid)] ds)
                         else Inl (not_a_function ''findOne'')))))"

text \<open>
  The \<open>try\<close> statement: \<open>Inl\<close> when the function returned inside it, \<open>Inr\<close> when control
  goes on to the statement after it.
\<close>

definition protect_try ::
  "(string \<Rightarrow> string option \<Rightarrow> exception + jsval) \<Rightarrow> (jsval \<Rightarrow> exception + jsval)
     \<Rightarrow> (string \<rightharpoonup> handle) \<Rightarrow> (string \<rightharpoonup> string) \<Rightarrow> object list \<Rightarrow> string option
     \<Rightarrow> handled + handled" where
  "protect_try jwt_verify new_ObjectId scope penv ds token =
     (case protect_lookup jwt_verify new_ObjectId scope penv ds token of
        Inl error \<Rightarrow>
          Inr (untouched\<lparr>logged := [error],
                 sent := [(401, [(''message'', Str ''Not authorized , token failed'')])]\<rparr>)
      | Inr found \<Rightarrow>
          if \<not> truthy found
          then Inl (untouched\<lparr>req_user := found,
                      sent := [(401, [(''message'', Str ''Not authoriztied , user not found'')])]\<rparr>)
          else Inr (untouched\<lparr>req_user := found, next_called := True\<rparr>))"

definition no_token :: "handled \<Rightarrow> handled" where
  "no_token h = h\<lparr>sent := sent h @ [(401, [(''message'', Str ''Not authorized, no token'')])]\<rparr>"

definition protect ::
  "(string \<Rightarrow> string option \<Rightarrow> exception + jsval) \<Rightarrow> (jsval \<Rightarrow> exception + jsval)
     \<Rightarrow> (string \<rightharpoonup> handle) \<Rightarrow> (string \<rightharpoonup> string) \<Rightarrow> object list \<Rightarrow> request \<Rightarrow> handled"
  where
  "protect jwt_verify new_ObjectId scope penv ds req =
     (case req_headers req ''authoriztion'' of
        None \<Rightarrow> no_token untouched
      | Some a \<Rightarrow>
          if a \<noteq> [] \<and> prefix ''Bearer'' a
          then
            (let token = nth_opt (split_on CHR '' '' a) 1 in
             case protect_try jwt_verify new_ObjectId scope penv ds token of
               Inl h \<Rightarrow> h
             | Inr h \<Rightarrow> if \<not> truthy_string token then no_token h else h)
          else no_token untouched)"

text \<open>The names the module of \<open>protect\<close> binds: \<open>jwt\<close>, \<open>getDb\<close>, \<open>ObjectId\<close>, \<open>protect\<close>.\<close>

definition protect_module_scope :: "handle \<Rightarrow> string \<rightharpoonup> handle" where
  "protect_module_scope h = [''getDb'' \<mapsto> h]"

subsection \<open>\<open>syncUser\<close>\<close>

text \<open>
  The request body holds \<open>name\<close>, \<open>email\<close> and \<open>image\<close>; the email is a string or is
  missing (a body whose email is not a string is outside this model). The handler either
  sends one response or ends with an exception.

  The function stops at each \<open>await\<close>, where other requests run, so it is two steps: up
  to the lookup (whose answer is \<open>userExists\<close>), and from the answer on. \<open>getDb\<close> is what
  the imported getter returns when called; \<open>ops\<close> says whether the result of \<open>insertOne\<close>
  has the \<open>ops\<close> array (the driver's version 3 has it, later versions do not).
\<close>

record sync_body =
  body_name :: jsval
  body_email :: "string option"
  body_image :: jsval

datatype reply = Sent nat object | Raised exception

datatype lookup = Replied reply | Answered jsval

definition syncUser_lookup :: "handle \<Rightarrow> sync_body \<Rightarrow> collection \<Rightarrow> lookup" where
  "syncUser_lookup getDb b c =
     (case body_email b of
        None \<Rightarrow> Replied (Sent 400 [(''message'', Str '' Email is required'')])
      | Some email \<Rightarrow>
          if email = [] then Replied (Sent 400 [(''message'', Str '' Email is required'')])
          else
            (case getDb of
               Promise \<Rightarrow> Replied (Raised (not_a_function ''db.collection''))
             | Db \<Rightarrow>
                 if ''findone'' \<in> set Collection_methods
                 then Answered (findOne [(''email'', Str email)] (docs c))
                 else Replied (Raised (not_a_function ''usersCollection.findone''))))"

definition syncUser_write ::
  "bool \<Rightarrow> nat \<Rightarrow> sync_body \<Rightarrow> jsval \<Rightarrow> collection \<Rightarrow> reply \<times> collection" where
  "syncUser_write ops now b userExists c =
     (let name = body_name b;
          email = (case body_email b of None \<Rightarrow> Undefined | Some e \<Rightarrow> Str e);
          image = body_image b
      in if \<not> truthy userExists
         then
           (case insertOne
                   [(''name'', name), (''email'', email), (''image'', image),
                    (''role'', Str ''user''), (''createdAt'', Date now)] c of
              Inl error \<Rightarrow> (Raised error, c)
            | Inr (stored, c') \<Rightarrow>
                if ops
                then (Sent 201 [(''message'', Str ''User created''), (''user'', Obj stored)], c')
                else (Raised (TypeError ''Cannot read properties of undefined''), c'))
         else
           (Sent 200 [(''message'', Str ''User already exists''), (''user'', userExists)],
            updateOne [(''email'', email)] [(''name'', name), (''image'', image)] c))"

definition syncUser ::
  "bool \<Rightarrow> handle \<Rightarrow> nat \<Rightarrow> sync_body \<Rightarrow> collection \<Rightarrow> reply \<times> collection" where
  "syncUser ops getDb now b c =
     (case syncUser_lookup getDb b c of
        Replied r \<Rightarrow> (r, c)
      | Answered userExists \<Rightarrow> syncUser_write ops now b userExists c)"


definition rows_with_email :: "string \<Rightarrow> collection \<Rightarrow> object list" where
  "rows_with_email e c = filter (\<lambda>d. field_of d ''email'' = Str e) (docs c)"

subsection \<open>The NextAuth options (route.js)\<close>

text \<open>
  An options object names, as far as the two of route.js go, the session strategy, a
  secret for the tokens, and callbacks. The \<open>jwt\<close> callback gets the token and, at
  sign-in only, the user; the \<open>session\<close> callback gets NextAuth's session, which has a
  \<open>user\<close> object, and the token.
\<close>

record session =
  session_user :: object
  session_expires :: string













text \<open>
  \<open>authorize\<close> of the credentials provider. Its parameter is named \<open>credentails\<close> and its
  body reads \<open>credentials\<close>, so the name is looked up in the scope around the function:
  \<open>scope\<close> holds the bindings of the module. \<open>connectDB\<close> (what awaiting it throws, if
  anything) and \<open>bcrypt.compare\<close> are parameters; \<open>User.findOne\<close> reads the users.
\<close>

definition authorize ::
  "(string \<rightharpoonup> jsval) \<Rightarrow> exception option \<Rightarrow> (jsval \<Rightarrow> jsval \<Rightarrow> exception + bool)
     \<Rightarrow> object list \<Rightarrow> jsval \<Rightarrow> jsval completion" where
  "authorize scope connectDB compare ds credentails =
     (case connectDB of
        Some error \<Rightarrow> Threw error
      | None \<Rightarrow>
          (case (scope(''credentails'' \<mapsto> credentails)) ''credentials'' of
             None \<Rightarrow> Threw (ReferenceError ''credentials is not defined'')
           | Some credentials \<Rightarrow>
               (case property credentials ''email'' of
                  Inl error \<Rightarrow> Threw error
                | Inr email \<Rightarrow>
                    (case findOne [(''email'', email)] ds of
                       Obj user \<Rightarrow>
                         (case property credentials ''password'' of
                            Inl error \<Rightarrow> Threw error
                          | Inr password \<Rightarrow>
                              (case compare password (field_of user ''password'') of
                                 Inl error \<Rightarrow> Threw error
                               | Inr isValid \<Rightarrow>
                                   if \<not> isValid then Threw (Error ''Invaild password'')
                                   else Returned
                                     (Obj [(''id'', field_of user ''_id''),
                                           (''name'', field_of user ''name''),
                                           (''email'', field_of user ''email'')])))
                     | _ \<Rightarrow> Threw (Error ''No user Found'')))))"

text \<open>
  The bindings of the module of \<open>authOptions\<close>: its imports and \<open>authOptions\<close> itself, each
  bound to some object.
\<close>

definition route_scope :: "string \<rightharpoonup> jsval" where
  "route_scope =
     map_of (map (\<lambda>name. (name, Obj []))
       [''GoogleProvider'', ''MongoDBAdapter'', ''clinetPromise'', ''CredentailsProvider'',
        ''connectDB'', ''User'', ''bcrypt'', ''clientPromise'', ''authOptions''])"

subsection \<open>Example requests and services\<close>

text \<open>
  The inputs the properties of the handlers are tried on: a body for \<open>syncUser\<close>, an empty
  users collection with or without the unique index, a request with one header, a
  \<open>jwt.verify\<close> that accepts the token \<open>good\<close> alone, an \<open>ObjectId\<close> constructor that
  knows one id, the stored user with that id, and a driver whose first connection attempt fails and whose
  later ones succeed.
\<close>

definition example_body :: "string \<Rightarrow> sync_body" where
  "example_body n =
     \<lparr>body_name = Str n, body_email = Some ''a@x.com'', body_image = Undefined\<rparr>"

definition empty_collection :: "bool \<Rightarrow> collection" where
  "empty_collection u = \<lparr>docs = [], unique_email = u\<rparr>"

definition example_request :: "string \<Rightarrow> string \<Rightarrow> request" where
  "example_request h v = \<lparr>req_headers = [h \<mapsto> v], req_cookies = Map.empty\<rparr>"

definition accept_good :: "string \<Rightarrow> string option \<Rightarrow> exception + jsval" where
  "accept_good t secret =
     (if t = ''good''
      then Inr (Obj [(''id'', Str ''65a1b2c3d4e5f60718293a4b''), (''email'', Str ''a@x.com'')])
      else Inl (LibraryError ''invalid signature''))"

definition oid_of :: "jsval \<Rightarrow> exception + jsval" where
  "oid_of v =
     (if v = Str ''65a1b2c3d4e5f60718293a4b'' then Inr (ObjectId 2)
      else Inl (LibraryError ''BSONError''))"

definition example_stored_user :: object where
  "example_stored_user =
     [(''_id'', ObjectId 2), (''name'', Str ''Ann''), (''email'', Str ''a@x.com''),
      (''password'', Str ''$2a$10$hash'')]"

definition flaky_network :: mongodb where
  "flaky_network =
     \<lparr>new_MongoClient =
        (\<lambda>uri. case uri of None \<Rightarrow> Inl (LibraryError ''MongoParseError'') | Some u \<Rightarrow> Inr u),
      connect = (\<lambda>cl n. if n = 0 then Some (LibraryError ''MongoNetworkError'') else None)\<rparr>"

definition example_authorized :: request where
  "example_authorized = example_request ''authoriztion'' ''Bearer good''"

text \<open>The users after a first \<open>syncUser\<close> whose lookup found nobody has written.\<close>

definition one_user :: "bool \<Rightarrow> collection" where
  "one_user u = snd (syncUser_write True 7 (example_body ''Ann'') Null (empty_collection u))"

text \<open>
  The document that this first write stores, the users after a second write (of another
  name, the same email) without the unique index, and the document the second write stores.
\<close>

definition ann_document :: object where
  "ann_document =
     [(''_id'', ObjectId 0), (''name'', Str ''Ann''), (''email'', Str ''a@x.com''),
      (''image'', Null), (''role'', Str ''user''), (''createdAt'', Date 7)]"

definition bob_document :: object where
  "bob_document =
     [(''_id'', ObjectId 1), (''name'', Str ''Bob''), (''email'', Str ''a@x.com''),
      (''image'', Null), (''role'', Str ''user''), (''createdAt'', Date 8)]"

definition two_users :: collection where
  "two_users = snd (syncUser_write True 8 (example_body ''Bob'') Null (one_user False))"

definition example_process :: process where
  "example_process =
     \<lparr>process_env = [''MONGODB_URI'' \<mapsto> ''mongodb://db/Books4All''], console = [],
      attempts = 0, module_client = None, module_db = None\<rparr>"


section \<open>Properties of the schema\<close>

subsection \<open>Deleting a user, deleting a book\<close>

lemma books_fold_delete_book:
  "books (fold delete_book bs db) = filter (\<lambda>x. row_id x \<notin> set bs) (books db)"
proof (induction bs arbitrary: db)
  case Nil
  show ?case by simp
next
  case (Cons b bs)
  have "books (delete_book b db) = filter (\<lambda>x. row_id x \<noteq> b) (books db)"
    by (auto simp: delete_book_def ids_def intro!: filter_True [symmetric])
  with Cons show ?case
    by (auto intro: filter_cong)
qed

lemma users_fold_delete_book: "users (fold delete_book bs db) = users db"
  by (induction bs arbitrary: db) (simp_all add: delete_book_def)

lemma orders_fold_delete_book: "orders (fold delete_book bs db) = orders db"
  by (induction bs arbitrary: db) (simp_all add: delete_book_def)

text \<open>What a run of book deletions does to the rows that name a book.\<close>

lemma fold_delete_book_referencing:
  "order_items (fold delete_book bs db) =
     map (\<lambda>i. if item_book_id i \<in> Some ` (set bs \<inter> set (ids (books db)))
              then i\<lparr>item_book_id := None\<rparr> else i) (order_items db)
   \<and> messages (fold delete_book bs db) =
     map (\<lambda>m. if message_book_id m \<in> Some ` (set bs \<inter> set (ids (books db)))
              then m\<lparr>message_book_id := None\<rparr> else m) (messages db)
   \<and> reviews (fold delete_book bs db) =
     filter (\<lambda>r. review_book_id r \<notin> set bs \<inter> set (ids (books db))) (reviews db)"
proof (induction bs arbitrary: db)
  case Nil
  show ?case by (simp add: map_idI)
next
  case (Cons b bs)
  show ?case
  proof (cases "b \<in> set (ids (books db))")
    case False
    then have "delete_book b db = db" by (simp add: delete_book_def)
    moreover from False have "set (b # bs) \<inter> set (ids (books db)) = set bs \<inter> set (ids (books db))"
      by auto
    ultimately show ?thesis using Cons [of db] by simp
  next
    case True
    let ?db = "delete_book b db"
    have ids: "set (ids (books ?db)) = set (ids (books db)) - {b}"
      using True by (auto simp: delete_book_def ids_def)
    have eff: "set (b # bs) \<inter> set (ids (books db))
        = insert b (set bs \<inter> set (ids (books ?db)))"
      using True by (auto simp: ids)
    have items: "order_items ?db = map (set_null_item b) (order_items db)"
      and msgs: "messages ?db = map (set_null_message b) (messages db)"
      and revs: "reviews ?db = filter (\<lambda>r. review_book_id r \<noteq> b) (reviews db)"
      using True by (simp_all add: delete_book_def)
    from Cons [of ?db] show ?thesis
      unfolding eff
      by (auto simp: items msgs revs set_null_item_def set_null_message_def
          intro: filter_cong)
  qed
qed

lemma books_fold_delete_order: "books (fold delete_order os db) = books db"
  by (induction os arbitrary: db) (simp_all add: delete_order_def)

lemma others_fold_delete_order:
  "users (fold delete_order os db) = users db
   \<and> messages (fold delete_order os db) = messages db
   \<and> reviews (fold delete_order os db) = reviews db"
  by (induction os arbitrary: db) (simp_all add: delete_order_def)

lemma orders_fold_delete_order:
  "orders (fold delete_order os db) = filter (\<lambda>x. row_id x \<notin> set os) (orders db)"
proof (induction os arbitrary: db)
  case Nil
  show ?case by simp
next
  case (Cons ord os)
  have "orders (delete_order ord db) = filter (\<lambda>x. row_id x \<noteq> ord) (orders db)"
    by (auto simp: delete_order_def ids_def intro!: filter_True [symmetric])
  with Cons show ?case
    by (auto intro: filter_cong)
qed

lemma items_fold_delete_order:
  "order_items (fold delete_order os db) =
     filter (\<lambda>i. item_order_id i \<notin> set os \<inter> set (ids (orders db))) (order_items db)"
proof (induction os arbitrary: db)
  case Nil
  show ?case by simp
next
  case (Cons ord os)
  show ?case
  proof (cases "ord \<in> set (ids (orders db))")
    case False
    then have "delete_order ord db = db" by (simp add: delete_order_def)
    moreover from False have "set (ord # os) \<inter> set (ids (orders db)) = set os \<inter> set (ids (orders db))"
      by auto
    ultimately show ?thesis using Cons [of db] by simp
  next
    case True
    let ?db = "delete_order ord db"
    have ids: "set (ids (orders ?db)) = set (ids (orders db)) - {ord}"
      using True by (auto simp: delete_order_def ids_def)
    have eff: "set (ord # os) \<inter> set (ids (orders db))
        = insert ord (set os \<inter> set (ids (orders ?db)))"
      using True by (auto simp: ids)
    have items: "order_items ?db = filter (\<lambda>i. item_order_id i \<noteq> ord) (order_items db)"
      using True by (simp add: delete_order_def)
    from Cons [of ?db] show ?thesis
      unfolding eff by (auto simp: items intro: filter_cong)
  qed
qed


lemma delete_user_tables:
  assumes "u \<in> set (ids (users db))"
  defines "sold \<equiv> ids (filter (\<lambda>x. book_seller_id x = u) (books db))"
    and "bought \<equiv> ids (filter (\<lambda>x. order_buyer_id x = u) (orders db))"
  shows "users (delete_user u db) = filter (\<lambda>x. row_id x \<noteq> u) (users db)"
    and "books (delete_user u db) = filter (\<lambda>x. row_id x \<notin> set sold) (books db)"
    and "orders (delete_user u db) = filter (\<lambda>x. row_id x \<notin> set bought) (orders db)"
    and "reviews (delete_user u db) =
      filter (\<lambda>r. review_user_id r \<noteq> u \<and> review_book_id r \<notin> set sold) (reviews db)"
    and "order_items (delete_user u db) =
      filter (\<lambda>i. item_order_id i \<notin> set bought)
        (map (\<lambda>i. if item_book_id i \<in> Some ` set sold then i\<lparr>item_book_id := None\<rparr> else i)
           (order_items db))"
    and "messages (delete_user u db) =
      filter (\<lambda>m. message_sender_id m \<noteq> u \<and> message_recipient_id m \<noteq> u)
        (map (\<lambda>m. if message_book_id m \<in> Some ` set sold then m\<lparr>message_book_id := None\<rparr> else m)
           (messages db))"
proof -
  have s: "set sold \<inter> set (ids (books db)) = set sold"
    by (auto simp: sold_def ids_def)
  have b: "set bought \<inter> set (ids (orders (fold delete_book sold db))) = set bought"
    by (auto simp: bought_def ids_def orders_fold_delete_book)
  let ?db1 = "fold delete_book sold db"
  let ?db2 = "fold delete_order bought ?db1"
  have d: "delete_user u db =
      ?db2\<lparr>users := filter (\<lambda>x. row_id x \<noteq> u) (users ?db2),
           messages :=
             filter (\<lambda>m. message_sender_id m \<noteq> u \<and> message_recipient_id m \<noteq> u) (messages ?db2),
           reviews := filter (\<lambda>r. review_user_id r \<noteq> u) (reviews ?db2)\<rparr>"
    using assms(1) by (simp add: delete_user_def Let_def sold_def bought_def)
  show "users (delete_user u db) = filter (\<lambda>x. row_id x \<noteq> u) (users db)"
    by (simp add: d others_fold_delete_order users_fold_delete_book)
  show "books (delete_user u db) = filter (\<lambda>x. row_id x \<notin> set sold) (books db)"
    by (simp add: d books_fold_delete_order books_fold_delete_book)
  show "orders (delete_user u db) = filter (\<lambda>x. row_id x \<notin> set bought) (orders db)"
    by (simp add: d orders_fold_delete_order orders_fold_delete_book)
  show "reviews (delete_user u db) =
      filter (\<lambda>r. review_user_id r \<noteq> u \<and> review_book_id r \<notin> set sold) (reviews db)"
    using fold_delete_book_referencing [of sold db]
    by (simp add: d others_fold_delete_order s conj_commute)
  show "order_items (delete_user u db) =
      filter (\<lambda>i. item_order_id i \<notin> set bought)
        (map (\<lambda>i. if item_book_id i \<in> Some ` set sold then i\<lparr>item_book_id := None\<rparr> else i)
           (order_items db))"
    using fold_delete_book_referencing [of sold db]
    by (simp add: d items_fold_delete_order [of bought ?db1] b s)
  show "messages (delete_user u db) =
      filter (\<lambda>m. message_sender_id m \<noteq> u \<and> message_recipient_id m \<noteq> u)
        (map (\<lambda>m. if message_book_id m \<in> Some ` set sold then m\<lparr>message_book_id := None\<rparr> else m)
           (messages db))"
    using fold_delete_book_referencing [of sold db]
    by (simp add: d others_fold_delete_order s)
qed

lemma list_all2_filter_map:
  assumes "\<And>x. P (f x) = P x"
  shows "list_all2 (\<lambda>x y. y = f x) (filter P xs) (filter P (map f xs))"
  using assms by (induction xs) auto

text \<open>
  C5. Deleting a user row that is there leaves: the other users; the books that the user
  did not sell; the orders that the user did not place; the reviews that are neither by
  the user nor of a book the user sold; so no book, order or message of the user is left.
  The rows of \<open>order_items\<close> afterwards are the rows that did not belong to an order of
  the user, in the same order, and the rows of \<open>messages\<close> are the rows neither sent nor
  received by the user, in the same order, each with every column as it was
  (\<open>book_title\<close>, \<open>book_author\<close> and \<open>price_at_purchase\<close> among them) except that a
  \<open>book_id\<close> naming a book the user sold, deleted with the user, is now NULL. Deleting a
  book row that is there leaves the users and the orders as they were, the other books,
  the reviews of other books, and the rows of \<open>order_items\<close> and of \<open>messages\<close> that
  there were, in the same order, each with every column as it was except that a
  \<open>book_id\<close> naming the deleted book is now NULL. Deleting a row that is not there
  changes nothing.
\<close>

theorem delete_actions:
  "(u \<in> set (ids (users db)) \<longrightarrow>
      (let sold = ids (filter (\<lambda>x. book_seller_id x = u) (books db));
           bought = ids (filter (\<lambda>x. order_buyer_id x = u) (orders db));
           db' = delete_user u db
       in users db' = filter (\<lambda>x. row_id x \<noteq> u) (users db)
          \<and> books db' = filter (\<lambda>x. row_id x \<notin> set sold) (books db)
          \<and> orders db' = filter (\<lambda>x. row_id x \<notin> set bought) (orders db)
          \<and> reviews db' =
              filter (\<lambda>r. review_user_id r \<noteq> u \<and> review_book_id r \<notin> set sold) (reviews db)
          \<and> (\<forall>x\<in>set (books db'). book_seller_id x \<noteq> u)
          \<and> (\<forall>x\<in>set (orders db'). order_buyer_id x \<noteq> u)
          \<and> (\<forall>m\<in>set (messages db').
                message_sender_id m \<noteq> u \<and> message_recipient_id m \<noteq> u)
          \<and> list_all2
               (\<lambda>i i'. i' = (if item_book_id i \<in> Some ` set sold
                              then i\<lparr>item_book_id := None\<rparr> else i))
               (filter (\<lambda>i. item_order_id i \<notin> set bought) (order_items db))
               (order_items db')
          \<and> list_all2
               (\<lambda>m m'. m' = (if message_book_id m \<in> Some ` set sold
                              then m\<lparr>message_book_id := None\<rparr> else m))
               (filter (\<lambda>m. message_sender_id m \<noteq> u \<and> message_recipient_id m \<noteq> u)
                  (messages db))
               (messages db')))
   \<and> (u \<notin> set (ids (users db)) \<longrightarrow> delete_user u db = db)
   \<and> (b \<in> set (ids (books db)) \<longrightarrow>
        users (delete_book b db) = users db
        \<and> orders (delete_book b db) = orders db
        \<and> books (delete_book b db) = filter (\<lambda>x. row_id x \<noteq> b) (books db)
        \<and> reviews (delete_book b db) = filter (\<lambda>r. review_book_id r \<noteq> b) (reviews db)
        \<and> list_all2
             (\<lambda>i i'. i' = (if item_book_id i = Some b then i\<lparr>item_book_id := None\<rparr> else i))
             (order_items db) (order_items (delete_book b db))
        \<and> list_all2
             (\<lambda>m m'. m' = (if message_book_id m = Some b
                            then m\<lparr>message_book_id := None\<rparr> else m))
             (messages db) (messages (delete_book b db)))
   \<and> (b \<notin> set (ids (books db)) \<longrightarrow> delete_book b db = db)"
proof (intro conjI impI)
  assume u: "u \<in> set (ids (users db))"
  let ?sold = "ids (filter (\<lambda>x. book_seller_id x = u) (books db))"
  let ?bought = "ids (filter (\<lambda>x. order_buyer_id x = u) (orders db))"
  let ?db = "delete_user u db"
  note t = delete_user_tables [OF u]
  have b: "\<forall>x\<in>set (books ?db). book_seller_id x \<noteq> u"
    by (auto simp: t(2) ids_def)
  have o: "\<forall>x\<in>set (orders ?db). order_buyer_id x \<noteq> u"
    by (auto simp: t(3) ids_def)
  have m: "\<forall>m\<in>set (messages ?db). message_sender_id m \<noteq> u \<and> message_recipient_id m \<noteq> u"
    by (simp add: t(6))
  have i: "list_all2
      (\<lambda>i i'. i' = (if item_book_id i \<in> Some ` set ?sold then i\<lparr>item_book_id := None\<rparr> else i))
      (filter (\<lambda>i. item_order_id i \<notin> set ?bought) (order_items db)) (order_items ?db)"
    unfolding t(5) by (rule list_all2_filter_map) simp
  have g: "list_all2
      (\<lambda>m m'. m' = (if message_book_id m \<in> Some ` set ?sold
                     then m\<lparr>message_book_id := None\<rparr> else m))
      (filter (\<lambda>m. message_sender_id m \<noteq> u \<and> message_recipient_id m \<noteq> u) (messages db))
      (messages ?db)"
    unfolding t(6) by (rule list_all2_filter_map) simp
  from t(1-4) b o m i g show "let sold = ids (filter (\<lambda>x. book_seller_id x = u) (books db));
           bought = ids (filter (\<lambda>x. order_buyer_id x = u) (orders db));
           db' = delete_user u db
       in users db' = filter (\<lambda>x. row_id x \<noteq> u) (users db)
          \<and> books db' = filter (\<lambda>x. row_id x \<notin> set sold) (books db)
          \<and> orders db' = filter (\<lambda>x. row_id x \<notin> set bought) (orders db)
          \<and> reviews db' =
              filter (\<lambda>r. review_user_id r \<noteq> u \<and> review_book_id r \<notin> set sold) (reviews db)
          \<and> (\<forall>x\<in>set (books db'). book_seller_id x \<noteq> u)
          \<and> (\<forall>x\<in>set (orders db'). order_buyer_id x \<noteq> u)
          \<and> (\<forall>m\<in>set (messages db').
                message_sender_id m \<noteq> u \<and> message_recipient_id m \<noteq> u)
          \<and> list_all2
               (\<lambda>i i'. i' = (if item_book_id i \<in> Some ` set sold
                              then i\<lparr>item_book_id := None\<rparr> else i))
               (filter (\<lambda>i. item_order_id i \<notin> set bought) (order_items db))
               (order_items db')
          \<and> list_all2
               (\<lambda>m m'. m' = (if message_book_id m \<in> Some ` set sold
                              then m\<lparr>message_book_id := None\<rparr> else m))
               (filter (\<lambda>m. message_sender_id m \<noteq> u \<and> message_recipient_id m \<noteq> u)
                  (messages db))
               (messages db')"
    unfolding Let_def by blast
next
  assume "u \<notin> set (ids (users db))"
  then show "delete_user u db = db" by (simp add: delete_user_def)
next
  assume b: "b \<in> set (ids (books db))"
  then show "users (delete_book b db) = users db" "orders (delete_book b db) = orders db"
    "books (delete_book b db) = filter (\<lambda>x. row_id x \<noteq> b) (books db)"
    "reviews (delete_book b db) = filter (\<lambda>r. review_book_id r \<noteq> b) (reviews db)"
    by (simp_all add: delete_book_def)
  from b show "list_all2
             (\<lambda>i i'. i' = (if item_book_id i = Some b then i\<lparr>item_book_id := None\<rparr> else i))
             (order_items db) (order_items (delete_book b db))"
    by (simp add: delete_book_def list_all2_map2 set_null_item_def list.rel_refl)
  from b show "list_all2
             (\<lambda>m m'. m' = (if message_book_id m = Some b
                            then m\<lparr>message_book_id := None\<rparr> else m))
             (messages db) (messages (delete_book b db))"
    by (simp add: delete_book_def list_all2_map2 set_null_message_def list.rel_refl)
next
  assume "b \<notin> set (ids (books db))"
  then show "delete_book b db = db" by (simp add: delete_book_def)
qed

theorem delete_actions_witness:
  "1 \<in> set (ids (users example_database)) \<and> 10 \<in> set (ids (books example_database))
   \<and> order_items example_database = [example_item 30 20 (Some 10), example_item 31 21 (Some 11)]
   \<and> messages example_database
       = [example_message 40 2 1 (Some 10), example_message 41 2 2 (Some 10)]
   \<and> users (delete_user 1 example_database) = [example_user 2 ''b@x.com'']
   \<and> books (delete_user 1 example_database) = [example_book 11 2]
   \<and> orders (delete_user 1 example_database) = [example_order 20 2]
   \<and> order_items (delete_user 1 example_database) = [example_item 30 20 None]
   \<and> messages (delete_user 1 example_database) = [example_message 41 2 2 None]
   \<and> reviews (delete_user 1 example_database) = []
   \<and> books (delete_book 10 example_database) = [example_book 11 2]
   \<and> order_items (delete_book 10 example_database)
       = [example_item 30 20 None, example_item 31 21 (Some 11)]
   \<and> messages (delete_book 10 example_database)
       = [example_message 40 2 1 None, example_message 41 2 2 None]
   \<and> reviews (delete_book 10 example_database) = [example_review 52 11 1 5]
   \<and> delete_user 3 example_database = example_database
   \<and> list_all2
        (\<lambda>i i'. i' = (if item_book_id i = Some 10 then i\<lparr>item_book_id := None\<rparr> else i))
        (order_items example_database) (order_items (delete_book 10 example_database))"
proof -
  have there: "1 \<in> set (ids (users example_database)) \<and> 10 \<in> set (ids (books example_database))"
    by code_simp
  have absent: "3 \<notin> set (ids (users example_database))"
    by code_simp
  have before: "order_items example_database
      = [example_item 30 20 (Some 10), example_item 31 21 (Some 11)]
    \<and> messages example_database
      = [example_message 40 2 1 (Some 10), example_message 41 2 2 (Some 10)]"
    by code_simp
  have a: "users (delete_user 1 example_database) = [example_user 2 ''b@x.com'']
    \<and> books (delete_user 1 example_database) = [example_book 11 2]
    \<and> orders (delete_user 1 example_database) = [example_order 20 2]"
    by code_simp
  have c: "order_items (delete_user 1 example_database) = [example_item 30 20 None]
    \<and> messages (delete_user 1 example_database) = [example_message 41 2 2 None]
    \<and> reviews (delete_user 1 example_database) = []"
    by code_simp
  have e: "books (delete_book 10 example_database) = [example_book 11 2]
    \<and> order_items (delete_book 10 example_database)
      = [example_item 30 20 None, example_item 31 21 (Some 11)]"
    by code_simp
  have f: "messages (delete_book 10 example_database)
      = [example_message 40 2 1 None, example_message 41 2 2 None]
    \<and> reviews (delete_book 10 example_database) = [example_review 52 11 1 5]"
    by code_simp
  from there absent before a c e f show ?thesis
    using delete_actions [of 1 example_database 10] delete_actions [of 3 example_database 10]
    by blast
qed

subsection \<open>One review for a book and a user\<close>

lemma violated_Nil: "violated c w = [] \<longleftrightarrow> \<not> c"
  by (simp add: violated_def)

lemma checked_snd: "snd (checked vs db db') = (if vs = [] then db' else db)"
  by (simp add: checked_def split: list.split)

lemma reviews_delete_book:
  "reviews (delete_book b db) =
     filter (\<lambda>r. b \<in> set (ids (books db)) \<longrightarrow> review_book_id r \<noteq> b) (reviews db)"
  by (simp add: delete_book_def)

lemma reviews_delete_user: "\<exists>P. reviews (delete_user u db) = filter P (reviews db)"
proof (cases "u \<in> set (ids (users db))")
  case True
  from delete_user_tables(4) [OF True] show ?thesis by blast
next
  case False
  then have "reviews (delete_user u db) = filter (\<lambda>r. True) (reviews db)"
    by (simp add: delete_user_def)
  then show ?thesis by blast
qed

lemma replace_row_distinct:
  assumes "distinct (map row_id xs)" "distinct (map f xs)"
    and "f r \<notin> set (map f (filter (\<lambda>x. row_id x \<noteq> i) xs))"
    and "row_id r \<notin> set (map row_id (filter (\<lambda>x. row_id x \<noteq> i) xs))"
  shows "distinct (map f (map (\<lambda>x. if row_id x = i then r else x) xs))
     \<and> distinct (map row_id (map (\<lambda>x. if row_id x = i then r else x) xs))"
  using assms
proof (induction xs)
  case Nil
  then show ?case by simp
next
  case (Cons a xs)
  show ?case
  proof (cases "row_id a = i")
    case True
    with Cons.prems have "\<forall>x\<in>set xs. row_id x \<noteq> i" by (auto simp: image_iff)
    then have same: "map (\<lambda>x. if row_id x = i then r else x) xs = xs"
      and rest: "filter (\<lambda>x. row_id x \<noteq> i) xs = xs"
      by (simp_all add: map_idI)
    from Cons.prems True show ?thesis
      by (simp add: same rest)
  next
    case False
    from Cons.prems False have ih: "distinct (map f (map (\<lambda>x. if row_id x = i then r else x) xs))
       \<and> distinct (map row_id (map (\<lambda>x. if row_id x = i then r else x) xs))"
      by (intro Cons.IH) auto
    from Cons.prems False have "f a \<noteq> f r" "row_id a \<noteq> row_id r" by auto
    with Cons.prems False ih show ?thesis
      by (auto simp: image_iff)
  qed
qed

lemma reviews_violations_Nil:
  "reviews_violations db others r = [] \<longleftrightarrow>
     1 \<le> review_rating r \<and> review_rating r \<le> 5 \<and> row_id r \<notin> set (ids others)
     \<and> book_user r \<notin> set (map book_user others)
     \<and> review_book_id r \<in> set (ids (books db)) \<and> review_user_id r \<in> set (ids (users db))"
  by (auto simp: reviews_violations_def violated_Nil)

lemma execute_reviews_ok: "reviews_ok db \<Longrightarrow> reviews_ok (snd (execute st db))"
proof (cases st)
  case (InsertReview r)
  assume "reviews_ok db"
  then show ?thesis
    by (auto simp: InsertReview reviews_ok_def insert_review_def checked_snd
        reviews_violations_Nil ids_def)
next
  case (UpdateReview i r)
  assume ok: "reviews_ok db"
  show ?thesis
  proof (cases "i \<in> set (ids (reviews db))
      \<and> reviews_violations db (filter (\<lambda>x. row_id x \<noteq> i) (reviews db)) r = []")
    case True
    then have "book_user r \<notin> set (map book_user (filter (\<lambda>x. row_id x \<noteq> i) (reviews db)))"
      "row_id r \<notin> set (map row_id (filter (\<lambda>x. row_id x \<noteq> i) (reviews db)))"
      by (simp_all add: reviews_violations_Nil ids_def)
    with ok replace_row_distinct [of "reviews db" book_user r i] True show ?thesis
      by (simp add: UpdateReview update_review_def reviews_ok_def ids_def checked_snd)
  next
    case False
    with ok show ?thesis
      by (auto simp: UpdateReview update_review_def checked_snd)
  qed
next
  case (DeleteUser u)
  assume ok: "reviews_ok db"
  obtain P where "reviews (delete_user u db) = filter P (reviews db)"
    using reviews_delete_user by blast
  with ok show ?thesis
    by (simp add: DeleteUser reviews_ok_def ids_def distinct_map_filter)
next
  case (DeleteBook b)
  assume ok: "reviews_ok db"
  then show ?thesis
    by (simp add: DeleteBook reviews_ok_def ids_def distinct_map_filter reviews_delete_book)
qed (auto simp: reviews_ok_def insert_user_def insert_book_def insert_order_def
    insert_message_def insert_order_item_def delete_order_def checked_snd
    delete_message_def delete_order_item_def delete_review_def ids_def
    distinct_map_filter)

lemma reachable_reviews_ok: "reachable db \<Longrightarrow> reviews_ok db"
proof (induction rule: reachable.induct)
  case reachable_empty
  show ?case by (simp add: reviews_ok_def empty_database_def ids_def)
next
  case (reachable_execute db st)
  then show ?case by (simp add: execute_reviews_ok)
qed

lemma reachable_run: "reachable db \<Longrightarrow> reachable (run sts db)"
  unfolding run_def
  by (induction sts arbitrary: db) (simp_all add: reachable_execute)

text \<open>
  C6, as the specification has it, fails. PostgreSQL reports the first constraint that a
  row breaks, and it evaluates the CHECK constraints of a row before it enters the row
  into the unique indexes: a second review for a book and a user whose rating is 9 fails
  with the violation of \<open>ck_review_rating_range\<close>, not with a uniqueness violation.
\<close>

theorem second_review_rating_first:
  "book_user (example_review 51 10 2 9) \<in> set (map book_user (reviews example_database))
   \<and> reachable example_database
   \<and> insert_review (example_review 51 10 2 9) example_database
       = (Rejected (CheckFailed ''ck_review_rating_range''), example_database)"
proof -
  have "reachable example_database"
    unfolding example_database_def by (rule reachable_run) (rule reachable_empty)
  moreover have "book_user (example_review 51 10 2 9)
      \<in> set (map book_user (reviews example_database))"
    by code_simp
  moreover have "fst (insert_review (example_review 51 10 2 9) example_database)
      = Rejected (CheckFailed ''ck_review_rating_range'')"
    by code_simp
  moreover have "snd (insert_review (example_review 51 10 2 9) example_database)
      = example_database"
    by (simp add: insert_review_def checked_snd reviews_violations_def violated_def
        example_review_def)
  ultimately show ?thesis by (simp add: prod_eq_iff)
qed

text \<open>
  C6, amended. In every state that a run of statements reaches from the empty tables, no
  two rows of \<open>reviews\<close> have the same (\<open>book_id\<close>, \<open>user_id\<close>). In any state, inserting
  a review whose pair is already there fails and leaves the state unchanged; the
  violation reported is that of the check \<open>ck_review_rating_range\<close> when the rating is
  not within 1..5, else the uniqueness violation of the primary key when the id of the
  row is in use as well, else the uniqueness violation of \<open>uq_review_book_user\<close>.
\<close>

theorem one_review_per_book_user:
  "(reachable db \<longrightarrow> distinct (map book_user (reviews db)))
   \<and> (book_user r \<in> set (map book_user (reviews db)) \<longrightarrow>
        insert_review r db =
          (Rejected
             (if \<not> (1 \<le> review_rating r \<and> review_rating r \<le> 5)
              then CheckFailed ''ck_review_rating_range''
              else if row_id r \<in> set (ids (reviews db)) then NotUnique ''reviews_pkey''
              else NotUnique ''uq_review_book_user''),
           db))"
proof (intro conjI impI)
  assume "reachable db"
  then show "distinct (map book_user (reviews db))"
    using reachable_reviews_ok by (simp add: reviews_ok_def)
next
  assume "book_user r \<in> set (map book_user (reviews db))"
  then show "insert_review r db =
          (Rejected
             (if \<not> (1 \<le> review_rating r \<and> review_rating r \<le> 5)
              then CheckFailed ''ck_review_rating_range''
              else if row_id r \<in> set (ids (reviews db)) then NotUnique ''reviews_pkey''
              else NotUnique ''uq_review_book_user''),
           db)"
    by (simp add: insert_review_def reviews_violations_def violated_def checked_def)
qed

theorem one_review_per_book_user_witness:
  "reachable example_database
   \<and> map book_user (reviews example_database) = [(10, 2), (11, 1)]
   \<and> distinct (map book_user (reviews example_database))
   \<and> insert_review (example_review 51 10 2 5) example_database
       = (Rejected (NotUnique ''uq_review_book_user''), example_database)
   \<and> insert_review (example_review 50 10 2 5) example_database
       = (Rejected (NotUnique ''reviews_pkey''), example_database)"
proof -
  have r: "reachable example_database"
    unfolding example_database_def by (rule reachable_run) (rule reachable_empty)
  have pairs: "map book_user (reviews example_database) = [(10, 2), (11, 1)]"
    by code_simp
  have dup: "book_user (example_review 51 10 2 5) \<in> set (map book_user (reviews example_database))
      \<and> book_user (example_review 50 10 2 5) \<in> set (map book_user (reviews example_database))"
    by code_simp
  have new: "1 \<le> review_rating (example_review 51 10 2 5)
      \<and> review_rating (example_review 51 10 2 5) \<le> 5
      \<and> row_id (example_review 51 10 2 5) \<notin> set (ids (reviews example_database))"
    by code_simp
  have old: "1 \<le> review_rating (example_review 50 10 2 5)
      \<and> review_rating (example_review 50 10 2 5) \<le> 5
      \<and> row_id (example_review 50 10 2 5) \<in> set (ids (reviews example_database))"
    by code_simp
  from r pairs dup new old show ?thesis
    using one_review_per_book_user [of example_database "example_review 51 10 2 5"]
      one_review_per_book_user [of example_database "example_review 50 10 2 5"]
    by simp
qed

subsection \<open>The range of a rating\<close>

text \<open>
  C7. Inserting a review whose rating is outside 1..5 is rejected by the table itself,
  whatever else the row holds: the violation reported is that of
  \<open>ck_review_rating_range\<close> and the state is unchanged. Inserting a review whose rating
  is within 1..5 and that breaks none of the other constraints of the table (a new id, an
  existing book and user, a new pair) adds the row.
\<close>

theorem review_rating_range:
  "(\<not> (1 \<le> review_rating r \<and> review_rating r \<le> 5) \<longrightarrow>
      insert_review r db = (Rejected (CheckFailed ''ck_review_rating_range''), db))
   \<and> (1 \<le> review_rating r \<and> review_rating r \<le> 5
        \<and> row_id r \<notin> set (ids (reviews db))
        \<and> review_book_id r \<in> set (ids (books db))
        \<and> review_user_id r \<in> set (ids (users db))
        \<and> book_user r \<notin> set (map book_user (reviews db)) \<longrightarrow>
      insert_review r db = (Done, db\<lparr>reviews := reviews db @ [r]\<rparr>))"
proof (intro conjI impI)
  assume "\<not> (1 \<le> review_rating r \<and> review_rating r \<le> 5)"
  then show "insert_review r db = (Rejected (CheckFailed ''ck_review_rating_range''), db)"
    by (simp add: insert_review_def reviews_violations_def violated_def checked_def)
next
  assume "1 \<le> review_rating r \<and> review_rating r \<le> 5
        \<and> row_id r \<notin> set (ids (reviews db))
        \<and> review_book_id r \<in> set (ids (books db))
        \<and> review_user_id r \<in> set (ids (users db))
        \<and> book_user r \<notin> set (map book_user (reviews db))"
  then have "reviews_violations db (reviews db) r = []"
    by (simp add: reviews_violations_Nil)
  then show "insert_review r db = (Done, db\<lparr>reviews := reviews db @ [r]\<rparr>)"
    by (simp add: insert_review_def checked_def)
qed

theorem review_rating_range_witness:
  "insert_review (example_review 51 11 2 9) example_database
     = (Rejected (CheckFailed ''ck_review_rating_range''), example_database)
   \<and> insert_review (example_review 51 11 2 5) example_database
       = (Done, example_database\<lparr>reviews := reviews example_database @ [example_review 51 11 2 5]\<rparr>)"
proof -
  have low: "\<not> (1 \<le> review_rating (example_review 51 11 2 9)
      \<and> review_rating (example_review 51 11 2 9) \<le> 5)"
    by (simp add: example_review_def)
  have ok: "1 \<le> review_rating (example_review 51 11 2 5)
      \<and> review_rating (example_review 51 11 2 5) \<le> 5
      \<and> row_id (example_review 51 11 2 5) \<notin> set (ids (reviews example_database))
      \<and> review_book_id (example_review 51 11 2 5) \<in> set (ids (books example_database))
      \<and> review_user_id (example_review 51 11 2 5) \<in> set (ids (users example_database))
      \<and> book_user (example_review 51 11 2 5) \<notin> set (map book_user (reviews example_database))"
    by code_simp
  from low ok show ?thesis
    using review_rating_range [of "example_review 51 11 2 9" example_database]
      review_rating_range [of "example_review 51 11 2 5" example_database]
    by blast
qed

section \<open>Properties of the handlers\<close>

subsection \<open>\<open>syncUser\<close>\<close>

lemma matches_email: "matches [(''email'', v)] d \<longleftrightarrow> field_of d ''email'' = v"
  by (simp add: matches_def)

lemma field_of_update: "field_of (AList.update k v d) k' = (if k' = k then v else field_of d k')"
  by (simp add: field_of_def update_conv')


lemma update_first_rel:
  assumes "\<And>x. P x \<Longrightarrow> R x (f x)" and "\<And>x. R x x"
  shows "list_all2 R xs (update_first P f xs)"
  using assms by (induction xs) (auto intro: list.rel_refl)

lemma update_first_hits:
  assumes "\<exists>x\<in>set xs. P x" and "\<And>x. P x \<Longrightarrow> Q (f x)"
  shows "\<exists>y\<in>set (update_first P f xs). Q y"
  using assms by (induction xs) auto


lemma rows_with_email_Nil:
  "rows_with_email e c = [] \<longleftrightarrow> Str e \<notin> set (map (\<lambda>x. field_of x ''email'') (docs c))"
  by (force simp: rows_with_email_def filter_empty_conv)

text \<open>
  The driver's collection has \<open>findOne\<close> and no \<open>findone\<close>: as written, \<open>syncUser\<close> never
  gets past its lookup and never changes the collection.
\<close>

lemma syncUser_as_written:
  "snd (syncUser ops getDb now b c) = c
   \<and> (\<forall>status body. fst (syncUser ops getDb now b c) = Sent status body \<longrightarrow> status = 400)"
  by (simp add: syncUser_def syncUser_lookup_def Collection_methods_def
      split: option.split handle.split)




lemma fresh_oid_greater:
  "d \<in> set ds \<Longrightarrow> field_of d ''_id'' = ObjectId m \<Longrightarrow> m < fresh_oid ds"
  unfolding fresh_oid_def
  by (induction ds) (auto split: jsval.split)

lemma fresh_oid_new: "ObjectId (fresh_oid ds) \<notin> set (map (\<lambda>d. field_of d ''_id'') ds)"
proof
  assume "ObjectId (fresh_oid ds) \<in> set (map (\<lambda>d. field_of d ''_id'') ds)"
  then obtain d where "d \<in> set ds" "field_of d ''_id'' = ObjectId (fresh_oid ds)"
    by auto
  then have "fresh_oid ds < fresh_oid ds"
    by (rule fresh_oid_greater)
  then show False by simp
qed

lemma update_first_none: "\<forall>x\<in>set xs. \<not> P x \<Longrightarrow> update_first P f xs = xs"
  by (induction xs) auto

lemma update_first_split:
  "\<forall>x\<in>set pre. \<not> P x \<Longrightarrow> P d \<Longrightarrow> update_first P f (pre @ d # post) = pre @ f d # post"
  by (induction pre) auto

text \<open>
  C3, as the specification has it, fails. For a body with name and email and an empty
  collection \<open>syncUser\<close> ends with a \<open>TypeError\<close> at its lookup and inserts nothing; and
  the row its insert writes has the role \<open>user\<close>, not \<open>buyer\<close>.
\<close>

theorem syncUser_inserts_nothing:
  "syncUser True Db 7 (example_body ''Ann'') (empty_collection True)
     = (Raised (not_a_function ''usersCollection.findone''), empty_collection True)
   \<and> rows_with_email ''a@x.com'' (empty_collection True) = []
   \<and> map (\<lambda>d. field_of d ''role'') (docs (one_user True)) = [Str ''user'']"
  by code_simp

text \<open>
  C3, amended. From the answer of its lookup on, \<open>syncUser\<close> does this to the users, for a
  request with the email \<open>e\<close>.

  When the answer is that nobody has the email: if the unique index on \<open>email\<close> is in force
  and a document has the email \<open>e\<close>, the collection stays as it is; otherwise the
  collection gains exactly one document, at its end, and nothing else changes: the
  document has an \<open>_id\<close> that no document of the collection had, the name, email and image
  of the request (a missing one stored as \<open>null\<close>), \<open>role = user\<close> and
  \<open>createdAt = now\<close>, and no other field.

  When the answer is a user: if no document has the email \<open>e\<close>, the collection stays as it
  is; otherwise the first document with the email \<open>e\<close> gets the name and the image of the
  request and keeps every other field, and every other document, before or after it, also
  one with the same email, stays as it is; nothing is inserted. Whenever some document has
  the email there is a first one.

  What the lookup \<open>usersCollection.findone\<close> itself does is no part of this statement.
\<close>

theorem syncUser_write_effect:
  "(\<not> truthy userExists \<and> body_email b = Some e
      \<and> \<not> (unique_email c \<and> rows_with_email e c \<noteq> []) \<longrightarrow>
      snd (syncUser_write ops now b userExists c) =
        c\<lparr>docs := docs c @
             [[(''_id'', ObjectId (fresh_oid (docs c))), (''name'', bson (body_name b)),
               (''email'', Str e), (''image'', bson (body_image b)),
               (''role'', Str ''user''), (''createdAt'', Date now)]]\<rparr>
      \<and> ObjectId (fresh_oid (docs c)) \<notin> set (map (\<lambda>d. field_of d ''_id'') (docs c)))
   \<and> (\<not> truthy userExists \<and> body_email b = Some e
        \<and> unique_email c \<and> rows_with_email e c \<noteq> [] \<longrightarrow>
        snd (syncUser_write ops now b userExists c) = c)
   \<and> (truthy userExists \<and> body_email b = Some e \<and> rows_with_email e c = [] \<longrightarrow>
        snd (syncUser_write ops now b userExists c) = c)
   \<and> (truthy userExists \<and> body_email b = Some e
        \<and> docs c = pre @ d # post
        \<and> (\<forall>x\<in>set pre. field_of x ''email'' \<noteq> Str e)
        \<and> field_of d ''email'' = Str e \<longrightarrow>
        snd (syncUser_write ops now b userExists c) =
          c\<lparr>docs := pre @
               AList.update ''image'' (bson (body_image b))
                 (AList.update ''name'' (bson (body_name b)) d) # post\<rparr>
        \<and> (\<forall>k. field_of
                  (AList.update ''image'' (bson (body_image b))
                     (AList.update ''name'' (bson (body_name b)) d)) k =
                (if k = ''image'' then bson (body_image b)
                 else if k = ''name'' then bson (body_name b) else field_of d k)))
   \<and> (rows_with_email e c \<noteq> [] \<longrightarrow>
        (\<exists>first d' rest. docs c = first @ d' # rest
           \<and> (\<forall>x\<in>set first. field_of x ''email'' \<noteq> Str e)
           \<and> field_of d' ''email'' = Str e))"
proof (intro conjI impI)
  assume h: "\<not> truthy userExists \<and> body_email b = Some e
      \<and> \<not> (unique_email c \<and> rows_with_email e c \<noteq> [])"
  then show "snd (syncUser_write ops now b userExists c) =
        c\<lparr>docs := docs c @
             [[(''_id'', ObjectId (fresh_oid (docs c))), (''name'', bson (body_name b)),
               (''email'', Str e), (''image'', bson (body_image b)),
               (''role'', Str ''user''), (''createdAt'', Date now)]]\<rparr>"
    by (auto simp: syncUser_write_def insertOne_def Let_def field_of_def bson_def
        rows_with_email_Nil)
  show "ObjectId (fresh_oid (docs c)) \<notin> set (map (\<lambda>d. field_of d ''_id'') (docs c))"
    by (rule fresh_oid_new)
next
  assume "\<not> truthy userExists \<and> body_email b = Some e
        \<and> unique_email c \<and> rows_with_email e c \<noteq> []"
  then show "snd (syncUser_write ops now b userExists c) = c"
    by (auto simp: syncUser_write_def insertOne_def Let_def field_of_def bson_def
        rows_with_email_Nil)
next
  assume h: "truthy userExists \<and> body_email b = Some e \<and> rows_with_email e c = []"
  then have "\<forall>x\<in>set (docs c). \<not> matches [(''email'', Str e)] x"
    by (auto simp: rows_with_email_def filter_empty_conv matches_email)
  then have "update_first (matches [(''email'', Str e)])
      (set_fields [(''name'', body_name b), (''image'', body_image b)]) (docs c) = docs c"
    by (rule update_first_none)
  with h show "snd (syncUser_write ops now b userExists c) = c"
    by (simp add: syncUser_write_def updateOne_def)
next
  assume h: "truthy userExists \<and> body_email b = Some e
        \<and> docs c = pre @ d # post
        \<and> (\<forall>x\<in>set pre. field_of x ''email'' \<noteq> Str e)
        \<and> field_of d ''email'' = Str e"
  then have "update_first (matches [(''email'', Str e)])
      (set_fields [(''name'', body_name b), (''image'', body_image b)]) (pre @ d # post)
      = pre @ set_fields [(''name'', body_name b), (''image'', body_image b)] d # post"
    by (intro update_first_split) (simp_all add: matches_email)
  with h show "snd (syncUser_write ops now b userExists c) =
          c\<lparr>docs := pre @
               AList.update ''image'' (bson (body_image b))
                 (AList.update ''name'' (bson (body_name b)) d) # post\<rparr>"
    by (simp add: syncUser_write_def updateOne_def set_fields_def)
  show "\<forall>k. field_of
                  (AList.update ''image'' (bson (body_image b))
                     (AList.update ''name'' (bson (body_name b)) d)) k =
                (if k = ''image'' then bson (body_image b)
                 else if k = ''name'' then bson (body_name b) else field_of d k)"
    by (simp add: field_of_update)
next
  assume "rows_with_email e c \<noteq> []"
  then have "\<exists>x\<in>set (docs c). field_of x ''email'' = Str e"
    by (auto simp: rows_with_email_def filter_empty_conv)
  then obtain first d' rest where "docs c = first @ d' # rest"
    "field_of d' ''email'' = Str e" "\<forall>x\<in>set first. field_of x ''email'' \<noteq> Str e"
    using split_list_first_prop [of "docs c" "\<lambda>x. field_of x ''email'' = Str e"] by blast
  then show "\<exists>first d' rest. docs c = first @ d' # rest
           \<and> (\<forall>x\<in>set first. field_of x ''email'' \<noteq> Str e)
           \<and> field_of d' ''email'' = Str e"
    by blast
qed

theorem syncUser_write_effect_witness:
  "snd (syncUser_write True 7 (example_body ''Ann'') Null (empty_collection True)) =
     (empty_collection True)
       \<lparr>docs := [[(''_id'', ObjectId 0), (''name'', Str ''Ann''), (''email'', Str ''a@x.com''),
                  (''image'', Null), (''role'', Str ''user''), (''createdAt'', Date 7)]]\<rparr>
   \<and> docs (one_user False) = [] @ ann_document # []
   \<and> snd (syncUser_write True 8 (example_body ''Bob'') Null (one_user False)) =
       (one_user False)
         \<lparr>docs := [ann_document,
                   [(''_id'', ObjectId 1), (''name'', Str ''Bob''), (''email'', Str ''a@x.com''),
                    (''image'', Null), (''role'', Str ''user''), (''createdAt'', Date 8)]]\<rparr>
   \<and> snd (syncUser_write True 8 (example_body ''Bob'') Null (one_user True)) = one_user True
   \<and> snd (syncUser_write True 9 (example_body ''Cy'') (Obj ann_document)
        (empty_collection True)) = empty_collection True
   \<and> docs two_users = [] @ ann_document # [bob_document]
   \<and> snd (syncUser_write True 9 (example_body ''Cy'') (Obj ann_document) two_users) =
       two_users
         \<lparr>docs := [[(''_id'', ObjectId 0), (''name'', Str ''Cy''), (''email'', Str ''a@x.com''),
                    (''image'', Null), (''role'', Str ''user''), (''createdAt'', Date 7)],
                   bob_document]\<rparr>"
proof -
  have none: "\<not> truthy Null \<and> body_email (example_body ''Ann'') = Some ''a@x.com''
      \<and> body_email (example_body ''Bob'') = Some ''a@x.com''
      \<and> body_email (example_body ''Cy'') = Some ''a@x.com''
      \<and> truthy (Obj ann_document)"
    by code_simp
  have rows: "rows_with_email ''a@x.com'' (empty_collection True) = []
      \<and> rows_with_email ''a@x.com'' (one_user True) \<noteq> []
      \<and> unique_email (one_user True) \<and> \<not> unique_email (one_user False)"
    by code_simp
  have fresh: "fresh_oid (docs (empty_collection True)) = 0
      \<and> fresh_oid (docs (one_user False)) = Suc 0"
    by code_simp
  have one: "docs (one_user False) = [] @ ann_document # []
      \<and> docs (empty_collection True) = []"
    by code_simp
  have two: "docs two_users = [] @ ann_document # [bob_document]
      \<and> (\<forall>x\<in>set ([] :: object list). field_of x ''email'' \<noteq> Str ''a@x.com'')
      \<and> field_of ann_document ''email'' = Str ''a@x.com''"
    by code_simp
  have stored: "bson (body_name (example_body ''Ann'')) = Str ''Ann''
      \<and> bson (body_name (example_body ''Bob'')) = Str ''Bob''
      \<and> bson (body_image (example_body ''Ann'')) = Null
      \<and> bson (body_image (example_body ''Bob'')) = Null"
    by code_simp
  have cy: "AList.update ''image'' (bson (body_image (example_body ''Cy'')))
        (AList.update ''name'' (bson (body_name (example_body ''Cy''))) ann_document)
      = [(''_id'', ObjectId 0), (''name'', Str ''Cy''), (''email'', Str ''a@x.com''),
         (''image'', Null), (''role'', Str ''user''), (''createdAt'', Date 7)]"
    by code_simp
  have a: "snd (syncUser_write True 7 (example_body ''Ann'') Null (empty_collection True)) =
     (empty_collection True)
       \<lparr>docs := [[(''_id'', ObjectId 0), (''name'', Str ''Ann''), (''email'', Str ''a@x.com''),
                  (''image'', Null), (''role'', Str ''user''), (''createdAt'', Date 7)]]\<rparr>"
    using syncUser_write_effect [where userExists = Null and b = "example_body ''Ann''"
        and e = "''a@x.com''" and c = "empty_collection True" and ops = True and now = 7]
      none rows fresh one stored
    by simp
  have b: "snd (syncUser_write True 8 (example_body ''Bob'') Null (one_user False)) =
       (one_user False)
         \<lparr>docs := [ann_document,
                   [(''_id'', ObjectId 1), (''name'', Str ''Bob''), (''email'', Str ''a@x.com''),
                    (''image'', Null), (''role'', Str ''user''), (''createdAt'', Date 8)]]\<rparr>"
    using syncUser_write_effect [where userExists = Null and b = "example_body ''Bob''"
        and e = "''a@x.com''" and c = "one_user False" and ops = True and now = 8]
      none rows fresh one stored
    by simp
  have c: "snd (syncUser_write True 8 (example_body ''Bob'') Null (one_user True)) = one_user True"
    using syncUser_write_effect [where userExists = Null and b = "example_body ''Bob''"
        and e = "''a@x.com''" and c = "one_user True" and ops = True and now = 8]
      none rows
    by blast
  have d: "snd (syncUser_write True 9 (example_body ''Cy'') (Obj ann_document)
        (empty_collection True)) = empty_collection True"
    using syncUser_write_effect [where userExists = "Obj ann_document"
        and b = "example_body ''Cy''" and e = "''a@x.com''" and c = "empty_collection True"
        and ops = True and now = 9]
      none rows
    by blast
  have e: "snd (syncUser_write True 9 (example_body ''Cy'') (Obj ann_document) two_users) =
       two_users
         \<lparr>docs := [] @ AList.update ''image'' (bson (body_image (example_body ''Cy'')))
            (AList.update ''name'' (bson (body_name (example_body ''Cy''))) ann_document)
            # [bob_document]\<rparr>"
    using syncUser_write_effect [where userExists = "Obj ann_document"
        and b = "example_body ''Cy''" and e = "''a@x.com''" and c = two_users
        and ops = True and now = 9 and pre = "[]" and d = ann_document
        and post = "[bob_document]"]
      none two
    by blast
  from a b c d e one two cy show ?thesis
    by simp
qed

subsection \<open>\<open>authorize\<close>\<close>

text \<open>
  C2. Password sign-in should return the id, name and email of the user when the hash
  comparison succeeds. \<open>authorize\<close> never returns: once \<open>connectDB\<close> has resolved, it
  throws a \<open>ReferenceError\<close>, whatever the credentials, the users and the comparison
  are, because its body reads \<open>credentials\<close> and its parameter is \<open>credentails\<close>.
\<close>

theorem authorize_reference_error:
  "authorize route_scope connectDB compare ds credentails =
     (case connectDB of
        Some error \<Rightarrow> Threw error
      | None \<Rightarrow> Threw (ReferenceError ''credentials is not defined''))"
  by (simp add: authorize_def route_scope_def split: option.split)

text \<open>
  Had the body's name been bound to the argument, \<open>authorize\<close> would do what its text
  says: fail for an unknown email and for a password that does not compare, and otherwise
  return the id, the name and the email of the user and nothing else.
\<close>

lemma authorize_as_meant:
  assumes "scope ''credentials'' = Some (Obj creds)"
  shows "authorize scope None compare ds (Obj creds) =
     (case findOne [(''email'', field_of creds ''email'')] ds of
        Obj user \<Rightarrow>
          (case compare (field_of creds ''password'') (field_of user ''password'') of
             Inl error \<Rightarrow> Threw error
           | Inr isValid \<Rightarrow>
               if isValid
               then Returned (Obj [(''id'', field_of user ''_id''),
                                   (''name'', field_of user ''name''),
                                   (''email'', field_of user ''email'')])
               else Threw (Error ''Invaild password''))
      | _ \<Rightarrow> Threw (Error ''No user Found''))"
  using assms by (simp add: authorize_def split: jsval.split sum.split)

subsection \<open>The token middlewares\<close>

text \<open>
  C4. A missing token and a bad token should give different failures, one of them each
  time. A request whose \<open>Authorization\<close> header holds a token that does not verify is
  answered \<open>No token\<close> by \<open>authMiddleware\<close> and by \<open>protect\<close>, since both read the
  header \<open>authoriztion\<close>; and \<open>protect\<close>, given the header \<open>authoriztion: Bearer\<close> with
  no token after it, sends two responses, \<open>token failed\<close> and then \<open>no token\<close>.
\<close>

theorem token_failures_confused:
  "authMiddleware jwt_verify penv (example_request ''authorization'' ''Bearer garbage'')
     = untouched\<lparr>sent := [(401, [(''error'', Str ''No token'')])]\<rparr>
   \<and> protect jwt_verify new_ObjectId scope penv ds
       (example_request ''authorization'' ''Bearer garbage'')
     = untouched\<lparr>sent := [(401, [(''message'', Str ''Not authorized, no token'')])]\<rparr>
   \<and> sent (protect jwt_verify new_ObjectId scope penv ds
        (example_request ''authoriztion'' ''Bearer''))
     = [(401, [(''message'', Str ''Not authorized , token failed'')]),
        (401, [(''message'', Str ''Not authorized, no token'')])]"
  by (simp add: authMiddleware_def protect_def protect_try_def protect_lookup_def verify_def
      example_request_def no_token_def untouched_def truthy_string_def nth_opt_def)

text \<open>
  For the token it reads (the header \<open>authoriztion\<close>, else the session cookie),
  \<open>authMiddleware\<close> gives one answer: 401 without a token, 403 for a token that does not
  verify, and \<open>next\<close> with the decoded token as \<open>req.user\<close> otherwise.
\<close>

lemma authMiddleware_one_answer:
  "authMiddleware jwt_verify penv req = untouched\<lparr>sent := [(401, [(''error'', Str ''No token'')])]\<rparr>
   \<or> authMiddleware jwt_verify penv req
       = untouched\<lparr>sent := [(403, [(''error'', Str ''Invalid token'')])]\<rparr>
   \<or> (\<exists>decoded. authMiddleware jwt_verify penv req
         = untouched\<lparr>req_user := decoded, next_called := True\<rparr>)"
  by (auto simp: authMiddleware_def Let_def split: sum.splits)

lemma findOne_Obj: "findOne flt ds = Obj d \<Longrightarrow> d \<in> set ds \<and> matches flt d"
  by (auto simp: findOne_def find_Some_iff split: option.splits)

lemma findOne_cases: "findOne flt ds = Null \<or> (\<exists>d. findOne flt ds = Obj d)"
  by (simp add: findOne_def split: option.split)

lemma protect_lookup_found:
  assumes "protect_lookup jwt_verify new_ObjectId scope penv ds token = Inr found"
  shows "\<exists>decoded i oid.
           verify jwt_verify token (penv ''JWT_SECRET'') = Inr decoded
           \<and> scope ''getDB'' = Some Db
           \<and> property decoded ''id'' = Inr i \<and> new_ObjectId i = Inr oid
           \<and> found = findOne [(''_id'', oid)] ds"
  using assms
  by (auto simp: protect_lookup_def split: sum.splits option.splits handle.splits if_splits)

lemma falsy_found:
  "protect_lookup jwt_verify new_ObjectId scope penv ds token = Inr found \<Longrightarrow> \<not> truthy found
     \<Longrightarrow> found = Null"
  by (auto simp: protect_lookup_def findOne_def
      split: sum.splits option.splits handle.splits if_splits)

lemma protect_rejects:
  "\<not> next_called (protect jwt_verify new_ObjectId scope penv ds req) \<Longrightarrow>
     sent (protect jwt_verify new_ObjectId scope penv ds req) \<noteq> []
     \<and> (\<forall>x\<in>set (sent (protect jwt_verify new_ObjectId scope penv ds req)). fst x = 401)
     \<and> (req_user (protect jwt_verify new_ObjectId scope penv ds req) = Undefined
          \<or> req_user (protect jwt_verify new_ObjectId scope penv ds req) = Null)"
  by (auto simp: protect_def protect_try_def no_token_def untouched_def Let_def
      split: option.splits sum.splits if_splits dest: falsy_found)

text \<open>
  C10. When \<open>protect\<close> calls \<open>next\<close>, the request has a header \<open>authoriztion\<close> whose
  token verifies, the \<open>id\<close> of the decoded token makes an \<open>ObjectId\<close>, a document of the
  users has that \<open>_id\<close>, and \<open>req.user\<close> is that document. When the header starts with
  \<open>Bearer\<close>, its token verifies and no document of the users has the decoded id,
  \<open>protect\<close> does not call \<open>next\<close>, sends exactly one response, with status 401, and
  \<open>req.user\<close> is \<open>undefined\<close> or \<open>null\<close>. And whenever \<open>protect\<close> does not call
  \<open>next\<close>, for any request at all, it sends a response, every response it sends has
  status 401, and \<open>req.user\<close> is \<open>undefined\<close> or \<open>null\<close>. All three hold for any
  bindings of the module, any \<open>jwt.verify\<close> and any \<open>ObjectId\<close> constructor.
\<close>

theorem protect_requires_user:
  "(next_called (protect jwt_verify new_ObjectId scope penv ds req) \<longrightarrow>
      (\<exists>a decoded i oid d.
          req_headers req ''authoriztion'' = Some a
          \<and> verify jwt_verify (nth_opt (split_on CHR '' '' a) 1) (penv ''JWT_SECRET'') = Inr decoded
          \<and> property decoded ''id'' = Inr i \<and> new_ObjectId i = Inr oid
          \<and> d \<in> set ds \<and> field_of d ''_id'' = oid
          \<and> req_user (protect jwt_verify new_ObjectId scope penv ds req) = Obj d))
   \<and> (req_headers req ''authoriztion'' = Some a \<and> prefix ''Bearer'' a
        \<and> verify jwt_verify (nth_opt (split_on CHR '' '' a) 1) (penv ''JWT_SECRET'') = Inr decoded
        \<and> (\<forall>i oid d. property decoded ''id'' = Inr i \<and> new_ObjectId i = Inr oid \<and> d \<in> set ds
              \<longrightarrow> field_of d ''_id'' \<noteq> oid) \<longrightarrow>
        \<not> next_called (protect jwt_verify new_ObjectId scope penv ds req)
        \<and> (\<exists>body. sent (protect jwt_verify new_ObjectId scope penv ds req) = [(401, body)])
        \<and> (req_user (protect jwt_verify new_ObjectId scope penv ds req) = Undefined
             \<or> req_user (protect jwt_verify new_ObjectId scope penv ds req) = Null))
   \<and> (\<not> next_called (protect jwt_verify new_ObjectId scope penv ds req) \<longrightarrow>
        sent (protect jwt_verify new_ObjectId scope penv ds req) \<noteq> []
        \<and> (\<forall>x\<in>set (sent (protect jwt_verify new_ObjectId scope penv ds req)). fst x = 401)
        \<and> (req_user (protect jwt_verify new_ObjectId scope penv ds req) = Undefined
             \<or> req_user (protect jwt_verify new_ObjectId scope penv ds req) = Null))"
proof -
  let ?r = "protect jwt_verify new_ObjectId scope penv ds req"
  have called: "\<exists>a decoded i oid d.
          req_headers req ''authoriztion'' = Some a
          \<and> verify jwt_verify (nth_opt (split_on CHR '' '' a) 1) (penv ''JWT_SECRET'') = Inr decoded
          \<and> property decoded ''id'' = Inr i \<and> new_ObjectId i = Inr oid
          \<and> d \<in> set ds \<and> field_of d ''_id'' = oid \<and> req_user ?r = Obj d"
    if n: "next_called ?r"
  proof -
    from n obtain a where a: "req_headers req ''authoriztion'' = Some a"
      by (cases "req_headers req ''authoriztion''")
        (auto simp: protect_def no_token_def untouched_def)
    let ?token = "nth_opt (split_on CHR '' '' a) 1"
    from n a obtain found where
      f: "protect_lookup jwt_verify new_ObjectId scope penv ds ?token = Inr found"
      and t: "truthy found" and u: "req_user ?r = found"
      by (auto simp: protect_def protect_try_def no_token_def untouched_def Let_def
          split: if_splits sum.splits)
    from protect_lookup_found [OF f] obtain decoded i oid where
      d: "verify jwt_verify ?token (penv ''JWT_SECRET'') = Inr decoded"
        "property decoded ''id'' = Inr i" "new_ObjectId i = Inr oid"
        "found = findOne [(''_id'', oid)] ds"
      by blast
    from t d(4) findOne_cases [of "[(''_id'', oid)]" ds] obtain doc where
      doc: "findOne [(''_id'', oid)] ds = Obj doc"
      by auto
    from findOne_Obj [OF doc] have "doc \<in> set ds" "field_of doc ''_id'' = oid"
      by (simp_all add: matches_def)
    with a d doc u show ?thesis
      by auto
  qed
  have rejected: "\<not> next_called ?r \<and> (\<exists>body. sent ?r = [(401, body)])
        \<and> (req_user ?r = Undefined \<or> req_user ?r = Null)"
    if a: "req_headers req ''authoriztion'' = Some a" and p: "prefix ''Bearer'' a"
      and v: "verify jwt_verify (nth_opt (split_on CHR '' '' a) 1) (penv ''JWT_SECRET'') = Inr decoded"
      and none: "\<forall>i oid d. property decoded ''id'' = Inr i \<and> new_ObjectId i = Inr oid \<and> d \<in> set ds
              \<longrightarrow> field_of d ''_id'' \<noteq> oid"
  proof -
    let ?token = "nth_opt (split_on CHR '' '' a) 1"
    from p have ne: "a \<noteq> []" by auto
    from v have tok: "truthy_string ?token"
      by (auto simp: verify_def truthy_string_def split: option.splits if_splits)
    have look: "(\<exists>e. protect_lookup jwt_verify new_ObjectId scope penv ds ?token = Inl e)
        \<or> protect_lookup jwt_verify new_ObjectId scope penv ds ?token = Inr Null"
    proof (cases "protect_lookup jwt_verify new_ObjectId scope penv ds ?token")
      case (Inl e)
      then show ?thesis by simp
    next
      case (Inr found)
      from protect_lookup_found [OF Inr] v obtain i oid where
        d: "property decoded ''id'' = Inr i" "new_ObjectId i = Inr oid"
          "found = findOne [(''_id'', oid)] ds"
        by auto
      have "found = Null"
      proof (rule ccontr)
        assume "found \<noteq> Null"
        with d(3) findOne_cases [of "[(''_id'', oid)]" ds] obtain doc where
          doc: "findOne [(''_id'', oid)] ds = Obj doc"
          by auto
        from findOne_Obj [OF doc] have "doc \<in> set ds" "field_of doc ''_id'' = oid"
          by (simp_all add: matches_def)
        with none d show False by blast
      qed
      with Inr show ?thesis by simp
    qed
    from look a ne p tok show ?thesis
      by (auto simp: protect_def protect_try_def no_token_def untouched_def Let_def)
  qed
  from called rejected protect_rejects [of jwt_verify new_ObjectId scope penv ds req]
  show ?thesis by blast
qed

theorem protect_requires_user_witness:
  "\<not> next_called (protect accept_good oid_of [''getDB'' \<mapsto> Db] Map.empty [] example_authorized)
   \<and> sent (protect accept_good oid_of [''getDB'' \<mapsto> Db] Map.empty [] example_authorized)
       = [(401, [(''message'', Str ''Not authoriztied , user not found'')])]
   \<and> req_user (protect accept_good oid_of [''getDB'' \<mapsto> Db] Map.empty [] example_authorized)
       = Null
   \<and> next_called
       (protect accept_good oid_of [''getDB'' \<mapsto> Db] Map.empty [example_stored_user]
          example_authorized)
   \<and> req_user
       (protect accept_good oid_of [''getDB'' \<mapsto> Db] Map.empty [example_stored_user]
          example_authorized) = Obj example_stored_user
   \<and> protect accept_good oid_of (protect_module_scope Db) Map.empty [] example_authorized
       = untouched\<lparr>logged := [ReferenceError ''getDB is not defined''],
           sent := [(401, [(''message'', Str ''Not authorized , token failed'')])]\<rparr>"
proof -
  have h: "req_headers example_authorized ''authoriztion'' = Some ''Bearer good''
      \<and> prefix ''Bearer'' ''Bearer good''
      \<and> verify accept_good (nth_opt (split_on CHR '' '' ''Bearer good'') 1) (Map.empty ''JWT_SECRET'')
          = Inr (Obj [(''id'', Str ''65a1b2c3d4e5f60718293a4b''), (''email'', Str ''a@x.com'')])
      \<and> (\<forall>i oid d.
            property (Obj [(''id'', Str ''65a1b2c3d4e5f60718293a4b''), (''email'', Str ''a@x.com'')])
              ''id'' = Inr i
            \<and> oid_of i = Inr oid \<and> d \<in> set [] \<longrightarrow> field_of d ''_id'' \<noteq> oid)"
    by (simp add: example_authorized_def example_request_def verify_def accept_good_def
        nth_opt_def)
  have s: "sent (protect accept_good oid_of [''getDB'' \<mapsto> Db] Map.empty [] example_authorized)
       = [(401, [(''message'', Str ''Not authoriztied , user not found'')])]"
    by (simp add: protect_def protect_try_def protect_lookup_def verify_def accept_good_def
        oid_of_def example_authorized_def example_request_def nth_opt_def findOne_def
        field_of_def untouched_def Collection_methods_def truthy_string_def)
  have n: "next_called
       (protect accept_good oid_of [''getDB'' \<mapsto> Db] Map.empty [example_stored_user]
          example_authorized)"
    by (simp add: protect_def protect_try_def protect_lookup_def verify_def accept_good_def
        oid_of_def example_authorized_def example_request_def nth_opt_def findOne_def
        field_of_def untouched_def Collection_methods_def truthy_string_def matches_def
        example_stored_user_def)
  have u0: "req_user (protect accept_good oid_of [''getDB'' \<mapsto> Db] Map.empty [] example_authorized)
       = Null"
    by (simp add: protect_def protect_try_def protect_lookup_def verify_def accept_good_def
        oid_of_def example_authorized_def example_request_def nth_opt_def findOne_def
        field_of_def untouched_def Collection_methods_def truthy_string_def)
  have u1: "req_user
       (protect accept_good oid_of [''getDB'' \<mapsto> Db] Map.empty [example_stored_user]
          example_authorized) = Obj example_stored_user"
    by (simp add: protect_def protect_try_def protect_lookup_def verify_def accept_good_def
        oid_of_def example_authorized_def example_request_def nth_opt_def findOne_def
        field_of_def untouched_def Collection_methods_def truthy_string_def matches_def
        example_stored_user_def)
  have w: "protect accept_good oid_of (protect_module_scope Db) Map.empty [] example_authorized
       = untouched\<lparr>logged := [ReferenceError ''getDB is not defined''],
           sent := [(401, [(''message'', Str ''Not authorized , token failed'')])]\<rparr>"
    by (simp add: protect_def protect_try_def protect_lookup_def verify_def accept_good_def
        example_authorized_def example_request_def nth_opt_def protect_module_scope_def
        truthy_string_def)
  from h s n u0 u1 w show ?thesis
    using protect_requires_user [of accept_good oid_of "[''getDB'' \<mapsto> Db]" Map.empty "[]"
        example_authorized "''Bearer good''"
        "Obj [(''id'', Str ''65a1b2c3d4e5f60718293a4b''), (''email'', Str ''a@x.com'')]"]
    by blast
qed

text \<open>
  The module of \<open>protect\<close> binds \<open>getDb\<close> and not \<open>getDB\<close>: with its own bindings the
  lookup ends in a \<open>ReferenceError\<close> and \<open>next\<close> is never called.
\<close>

lemma protect_as_written:
  "\<not> next_called (protect jwt_verify new_ObjectId (protect_module_scope h) penv ds req)"
  by (auto simp: protect_def protect_try_def protect_lookup_def protect_module_scope_def
      no_token_def untouched_def Let_def split: option.splits sum.splits)

subsection \<open>The session of a signed-in user\<close>



subsection \<open>\<open>getDB\<close>\<close>

text \<open>
  C9, as the specification has it, fails. On a network whose first connection attempt
  fails and whose second would succeed, \<open>getDB\<close> makes one attempt, writes the error to
  the console and returns \<open>undefined\<close>: it does not retry and raises nothing.
\<close>

theorem getDB_gives_up_silently:
  "fst (getDB flaky_network example_process) = Returned None
   \<and> attempts (snd (getDB flaky_network example_process)) = 1
   \<and> console (snd (getDB flaky_network example_process)) = [LibraryError ''MongoNetworkError'']
   \<and> connect flaky_network ''mongodb://db/Books4All'' 1 = None"
  by (simp add: getDB_def flaky_network_def example_process_def)

text \<open>
  C9, amended. \<open>getDB\<close> makes at most one connection attempt and never throws. When
  the constructor refuses the URI, or the one attempt fails, it writes that error to the
  console and returns \<open>undefined\<close>; when the attempt succeeds it returns the database
  handle and writes nothing.
\<close>

theorem getDB_one_attempt:
  "attempts (snd (getDB lib p)) \<le> Suc (attempts p)
   \<and> (\<exists>r. fst (getDB lib p) = Returned r)
   \<and> (case new_MongoClient lib (process_env p ''MONGODB_URI'') of
        Inl error \<Rightarrow>
          getDB lib p = (Returned None, p\<lparr>console := console p @ [error]\<rparr>)
      | Inr cl \<Rightarrow>
          attempts (snd (getDB lib p)) = Suc (attempts p)
          \<and> (case connect lib cl (attempts p) of
                Some error \<Rightarrow>
                  fst (getDB lib p) = Returned None
                  \<and> console (snd (getDB lib p)) = console p @ [error]
              | None \<Rightarrow>
                  fst (getDB lib p) = Returned (Some Db)
                  \<and> console (snd (getDB lib p)) = console p))"
  by (simp add: getDB_def Let_def split: sum.split option.split)

end
